theory Spec2Isabelle
  imports Main "HOL-Library.Multiset"
begin

section \<open>The relational store\<close>

text \<open>
  The three tables of the first migration. A UUID is modelled as a natural number (the
  column type admits no empty text, so a non-null UUID is always truthy on the client),
  a \<open>TIMESTAMP WITH TIME ZONE\<close> as an integer count of clock ticks, \<open>Date.now()\<close> as an
  integer count of milliseconds. A table is the list of its rows in the order a scan
  delivers them.
\<close>

type_synonym uuid = nat

record profile_row =
  profile_id :: uuid
  user_id :: uuid
  name :: string
  uid :: string
  avatar_color :: string
  profile_created_at :: int
  profile_updated_at :: int

record contact_row =
  edge_id :: uuid
  edge_user_id :: uuid
  edge_contact_user_id :: uuid
  edge_created_at :: int

record message_row =
  message_id :: uuid
  sender_id :: uuid
  receiver_id :: uuid
  content :: string
  reply_to_id :: "uuid option"
  is_edited :: bool
  created_at :: int
  updated_at :: int

record store =
  profiles :: "profile_row list"
  contacts :: "contact_row list"
  messages :: "message_row list"

text \<open>
  What a statement can fail with: a \<open>UNIQUE\<close> constraint, a foreign key, a row-level
  security \<open>WITH CHECK\<close>, or a \<open>RAISE EXCEPTION\<close> with its format string and arguments.
  The store is taken to be reachable: a request fails only when its statement does.
\<close>

datatype pg_error =
    Unique_violation
  | Foreign_key_violation
  | Insufficient_privilege
  | Raise_exception string "int list"

section \<open>Text helpers\<close>

text \<open>
  A text is the list of its characters, each a code point below 256. JavaScript's
  \<open>String.prototype.trim\<close> strips white space and line terminators; below 256 these
  are tab, line feed, vertical tab, form feed, carriage return, space and the no-break
  space U+00A0. PostgreSQL's one-argument \<open>trim\<close> removes spaces only.
\<close>

definition is_ws :: "char \<Rightarrow> bool" where
  "is_ws c = (c \<in> {CHR 0x09, CHR 0x0A, CHR 0x0B, CHR 0x0C, CHR 0x0D, CHR 0x20, CHR 0xA0})"

definition trim :: "string \<Rightarrow> string" where
  "trim s = rev (dropWhile is_ws (rev (dropWhile is_ws s)))"

definition pg_trim :: "string \<Rightarrow> string" where
  "pg_trim s = rev (dropWhile (\<lambda>c. c = CHR 0x20) (rev (dropWhile (\<lambda>c. c = CHR 0x20) s)))"

text \<open>
  JavaScript's \<open>s.substring(start, end)\<close> for \<open>start \<le> end\<close> (both are clamped to the
  length of \<open>s\<close>, which \<open>take\<close> and \<open>drop\<close> do), and PostgreSQL's
  \<open>substring(s, start, len)\<close> with its 1-based start.
\<close>

definition substring :: "string \<Rightarrow> nat \<Rightarrow> nat \<Rightarrow> string" where
  "substring s start end = (if start \<le> end then take (end - start) (drop start s)
                            else take (start - end) (drop end s))"

definition pg_substring :: "string \<Rightarrow> int \<Rightarrow> int \<Rightarrow> string" where
  "pg_substring s start len =
     (if start \<ge> 1 then take (nat len) (drop (nat (start - 1)) s)
      else take (nat (start + len - 1)) s)"

section \<open>UID directory service\<close>

subsection \<open>lookup_profile_by_uid\<close>

text \<open>
  The function of the last migration. \<open>p_uid\<close> may be \<open>NULL\<close>. The guard returns the empty
  table before the \<open>SELECT\<close> is reached; otherwise the first matching profile is returned,
  reduced to \<open>(user_id, name)\<close>.
\<close>

definition lookup_profile_by_uid :: "string option \<Rightarrow> store \<Rightarrow> (uuid \<times> string) list" where
  "lookup_profile_by_uid p_uid db =
     (case p_uid of
        None \<Rightarrow> []
      | Some u \<Rightarrow>
          if length u \<noteq> 8 then []
          else take 1 (map (\<lambda>p. (user_id p, name p)) (filter (\<lambda>p. uid p = u) (profiles db))))"

subsection \<open>regenerate_profile_uid\<close>

definition max_attempts :: nat where
  "max_attempts = 10"

text \<open>
  \<open>UPDATE public.profiles SET uid = new_uid, updated_at = now() WHERE user_id = p_user_id\<close>
  under the policy "Users can update own profile" (\<open>auth.uid() = user_id\<close>; with no
  authenticated user the comparison is \<open>NULL\<close> and no row qualifies). The statement fails
  with \<open>unique_violation\<close> when a row it writes would share its \<open>uid\<close> with another row.
\<close>

definition update_target :: "uuid option \<Rightarrow> uuid \<Rightarrow> profile_row \<Rightarrow> bool" where
  "update_target auth p_user_id r = (user_id r = p_user_id \<and> auth = Some (user_id r))"

definition uid_conflict :: "uuid option \<Rightarrow> uuid \<Rightarrow> string \<Rightarrow> profile_row list \<Rightarrow> bool" where
  "uid_conflict auth p_user_id new_uid rows =
     (let targets = filter (update_target auth p_user_id) rows;
          others = filter (\<lambda>r. \<not> update_target auth p_user_id r) rows
      in targets \<noteq> [] \<and> (new_uid \<in> set (map uid others) \<or> length targets > 1))"

definition update_profile_uid ::
  "uuid option \<Rightarrow> int \<Rightarrow> uuid \<Rightarrow> string \<Rightarrow> profile_row list \<Rightarrow> pg_error + profile_row list" where
  "update_profile_uid auth now p_user_id new_uid rows =
     (if uid_conflict auth p_user_id new_uid rows then Inl Unique_violation
      else Inr (map (\<lambda>r. if update_target auth p_user_id r
                          then r\<lparr>uid := new_uid, profile_updated_at := now\<rparr> else r) rows))"

text \<open>
  The candidate of one pass through the loop:
  \<open>substring(md5(gen_random_uuid()::text || clock_timestamp()::text || random()::text), 1, 8)\<close>.
  \<open>md5\<close> is PostgreSQL's and is taken as a parameter; \<open>draws n\<close> is the concatenated text
  the three entropy sources give on the \<open>n\<close>-th pass.
\<close>

definition candidate :: "(string \<Rightarrow> string) \<Rightarrow> (nat \<Rightarrow> string) \<Rightarrow> nat \<Rightarrow> string" where
  "candidate md5 draws n = pg_substring (md5 (draws n)) 1 8"

text \<open>
  The \<open>LOOP\<close>. Every pass that does not leave the loop adds one to \<open>attempt\<close>, so the pass
  that runs with \<open>attempt = n\<close> is the \<open>n\<close>-th and takes the \<open>n\<close>-th draw. \<open>EXIT\<close> leaves the
  loop after a successful update; the \<open>RAISE\<close> inside the handler leaves the function.
\<close>

function regenerate_loop ::
  "(string \<Rightarrow> string) \<Rightarrow> (nat \<Rightarrow> string) \<Rightarrow> uuid option \<Rightarrow> int \<Rightarrow> uuid \<Rightarrow> nat
     \<Rightarrow> profile_row list \<Rightarrow> pg_error + (string \<times> profile_row list)" where
  "regenerate_loop md5 draws auth now p_user_id attempt rows =
     (let new_uid = candidate md5 draws attempt in
      case update_profile_uid auth now p_user_id new_uid rows of
        Inr rows' \<Rightarrow> Inr (new_uid, rows')
      | Inl Unique_violation \<Rightarrow>
          if attempt + 1 \<ge> max_attempts
          then Inl (Raise_exception ''Failed to generate unique UID after % attempts''
                      [int max_attempts])
          else regenerate_loop md5 draws auth now p_user_id (attempt + 1) rows
      | Inl e \<Rightarrow> Inl e)"
  by pat_completeness auto
termination
  by (relation "measure (\<lambda>(md5, draws, auth, now, p_user_id, attempt, rows). max_attempts - attempt)")
     auto

text \<open>
  The function itself: the authorization guard (\<open>auth.uid() != p_user_id\<close> is \<open>NULL\<close>, hence
  not taken, when nobody is authenticated), then the loop from \<open>attempt = 0\<close>.
\<close>

definition regenerate_profile_uid ::
  "(string \<Rightarrow> string) \<Rightarrow> (nat \<Rightarrow> string) \<Rightarrow> uuid option \<Rightarrow> int \<Rightarrow> uuid
     \<Rightarrow> store \<Rightarrow> pg_error + (string \<times> store)" where
  "regenerate_profile_uid md5 draws auth now p_user_id db =
     (if auth \<noteq> None \<and> auth \<noteq> Some p_user_id
      then Inl (Raise_exception ''Not authorized to update this profile'' [])
      else case regenerate_loop md5 draws auth now p_user_id 0 (profiles db) of
             Inl e \<Rightarrow> Inl e
           | Inr (new_uid, rows') \<Rightarrow> Inr (new_uid, db\<lparr>profiles := rows'\<rparr>))"


subsection \<open>Regenerating from the settings page\<close>

record toast =
  title :: string
  description :: string
  destructive :: bool

text \<open>
  \<open>handleRegenerateUid\<close> of \<open>Settings.tsx\<close>. \<open>rnd36\<close> is the text
  \<open>Math.random().toString(36)\<close> produced (\<open>0.i\<close> for the number one half); the handle is
  its \<open>substring(2, 10)\<close>, written to the caller's row by a plain update, which the
  \<open>update_profiles_updated_at\<close> trigger stamps. Without a loaded profile nothing happens.
\<close>

definition handleRegenerateUid ::
  "string \<Rightarrow> uuid option \<Rightarrow> int \<Rightarrow> profile_row option \<Rightarrow> store \<Rightarrow> toast list \<times> store" where
  "handleRegenerateUid rnd36 auth now profile db =
     (case profile of
        None \<Rightarrow> ([], db)
      | Some pr \<Rightarrow>
          let newUid = substring rnd36 2 10 in
          case update_profile_uid auth now (user_id pr) newUid (profiles db) of
            Inl e \<Rightarrow>
              ([\<lparr>title = ''Error'', description = ''Failed to regenerate UID.'',
                 destructive = True\<rparr>], db)
          | Inr rows' \<Rightarrow>
              ([\<lparr>title = ''UID regenerated'', description = ''Your new UID is ready to share.'',
                 destructive = False\<rparr>], db\<lparr>profiles := rows'\<rparr>))"

section \<open>The messages table\<close>

text \<open>
  The row-level security policies on \<open>messages\<close>: a row is visible to its sender and its
  receiver; only the sender inserts, updates and deletes.
\<close>

definition messages_select_policy :: "uuid option \<Rightarrow> message_row \<Rightarrow> bool" where
  "messages_select_policy auth m = (auth = Some (sender_id m) \<or> auth = Some (receiver_id m))"

definition messages_sender_policy :: "uuid option \<Rightarrow> message_row \<Rightarrow> bool" where
  "messages_sender_policy auth m = (auth = Some (sender_id m))"

text \<open>
  The two row triggers: \<open>update_updated_at_column\<close> (before update) and
  \<open>validate_message_content\<close> (before insert or update). Before an update they fire in
  the order of their names, \<open>update_messages_updated_at\<close> first.
\<close>

definition update_updated_at_column :: "int \<Rightarrow> message_row \<Rightarrow> message_row" where
  "update_updated_at_column now new = new\<lparr>updated_at := now\<rparr>"

definition validate_message_content :: "message_row \<Rightarrow> pg_error + message_row" where
  "validate_message_content new =
     (if length (pg_trim (content new)) = 0
      then Inl (Raise_exception ''Message content cannot be empty'' [])
      else if length (content new) > 10000
      then Inl (Raise_exception ''Message content exceeds maximum length of 10000 characters'' [])
      else Inr new)"

definition messages_before_update :: "int \<Rightarrow> message_row \<Rightarrow> pg_error + message_row" where
  "messages_before_update now new = validate_message_content (update_updated_at_column now new)"

text \<open>
  An \<open>UPDATE\<close> over a table: every row the statement selects is replaced by what the
  row function returns; the first error aborts the statement and nothing is written.
\<close>

fun update_rows :: "('r \<Rightarrow> bool) \<Rightarrow> ('r \<Rightarrow> pg_error + 'r) \<Rightarrow> 'r list \<Rightarrow> pg_error + 'r list" where
  "update_rows sel f [] = Inr []"
| "update_rows sel f (r # rs) =
     (if sel r
      then (case f r of
              Inl e \<Rightarrow> Inl e
            | Inr r' \<Rightarrow> (case update_rows sel f rs of Inl e \<Rightarrow> Inl e | Inr rs' \<Rightarrow> Inr (r' # rs')))
      else (case update_rows sel f rs of Inl e \<Rightarrow> Inl e | Inr rs' \<Rightarrow> Inr (r # rs')))"

text \<open>
  \<open>supabase.from('messages').insert({sender_id, receiver_id, content, reply_to_id})\<close>:
  the defaults fill in the id (a fresh UUID, given here), \<open>is_edited\<close> and both
  timestamps; the content trigger, the insert policy, the primary key and the
  self-reference of \<open>reply_to_id\<close> are checked. The references to \<open>auth.users\<close> belong to
  the authentication provider and are not modelled.
\<close>

record insert_request =
  ins_sender_id :: uuid
  ins_receiver_id :: uuid
  ins_content :: string
  ins_reply_to_id :: "uuid option"
  ins_now :: int

definition insert_message ::
  "uuid option \<Rightarrow> int \<Rightarrow> uuid \<Rightarrow> insert_request \<Rightarrow> message_row list \<Rightarrow> pg_error + message_row list" where
  "insert_message auth now new_id rq rows =
     (let new = \<lparr>message_id = new_id, sender_id = ins_sender_id rq,
                 receiver_id = ins_receiver_id rq, content = ins_content rq,
                 reply_to_id = ins_reply_to_id rq, is_edited = False,
                 created_at = now, updated_at = now\<rparr>
      in case validate_message_content new of
           Inl e \<Rightarrow> Inl e
         | Inr new' \<Rightarrow>
             if \<not> messages_sender_policy auth new' then Inl Insufficient_privilege
             else if new_id \<in> set (map message_id rows) then Inl Unique_violation
             else (case reply_to_id new' of
                     Some r \<Rightarrow> if r \<in> set (map message_id rows) then Inr (rows @ [new'])
                               else Inl Foreign_key_violation
                   | None \<Rightarrow> Inr (rows @ [new'])))"

text \<open>
  \<open>.update({content, is_edited: true}).eq('id', id)\<close> under the update policy, with the
  two before-update triggers.
\<close>

definition update_message ::
  "uuid option \<Rightarrow> int \<Rightarrow> uuid \<Rightarrow> string \<Rightarrow> message_row list \<Rightarrow> pg_error + message_row list" where
  "update_message auth now mid new_content rows =
     update_rows (\<lambda>m. message_id m = mid \<and> messages_sender_policy auth m)
       (\<lambda>m. messages_before_update now (m\<lparr>content := new_content, is_edited := True\<rparr>)) rows"

text \<open>
  \<open>.delete().eq('id', id)\<close> under the delete policy. When a row goes, \<open>ON DELETE SET NULL\<close>
  rewrites every remaining row whose \<open>reply_to_id\<close> names it; that rewrite is an update of
  the row, so the before-update triggers fire for it.
\<close>

definition delete_message ::
  "uuid option \<Rightarrow> int \<Rightarrow> uuid \<Rightarrow> message_row list \<Rightarrow> pg_error + message_row list" where
  "delete_message auth now mid rows =
     (let doomed = (\<lambda>m. message_id m = mid \<and> messages_sender_policy auth m)
      in if filter doomed rows = [] then Inr rows
         else update_rows (\<lambda>m. reply_to_id m = Some mid)
                (\<lambda>m. messages_before_update now (m\<lparr>reply_to_id := None\<rparr>))
                (filter (\<lambda>m. \<not> doomed m) rows))"

section \<open>Message thread synchronizer (ChatArea.tsx)\<close>

record contact_profile =
  c_name :: string
  c_uid :: string
  c_avatar_color :: string

record contact =
  contact_id :: uuid
  contact_user_id :: uuid
  profile :: contact_profile

record reply_preview =
  preview_content :: string
  sender_name :: string

text \<open>
  The client's \<open>Message\<close>: the columns of the row and, beside them, the optional
  \<open>reply_to\<close> preview that \<open>fetchMessages\<close> attaches.
\<close>

record message =
  row :: message_row
  reply_to :: "reply_preview option"

definition MESSAGE_COOLDOWN :: int where
  "MESSAGE_COOLDOWN = 500"

subsection \<open>fetchMessages\<close>

text \<open>
  \<open>.order('created_at', { ascending: true })\<close> becomes \<open>ORDER BY created_at ASC\<close>, which
  PostgreSQL carries out. The sort it performs for one request is taken as a parameter
  \<open>ord\<close>. All that the query fixes about it is that the rows come back, each as often as
  it went in, in ascending order of \<open>created_at\<close>; where rows have equal \<open>created_at\<close>
  their order is the server's choice, and it may differ from one request to the next.
\<close>

definition orders_by_created_at :: "(message_row list \<Rightarrow> message_row list) \<Rightarrow> bool" where
  "orders_by_created_at ord =
     (\<forall>rows. mset (ord rows) = mset rows \<and> sorted (map created_at (ord rows)))"

text \<open>
  The thread query: the rows visible to the user, restricted by the \<open>or\<close> filter, ordered
  by \<open>created_at\<close> ascending and by nothing else.
\<close>

definition thread_filter :: "uuid \<Rightarrow> uuid \<Rightarrow> message_row \<Rightarrow> bool" where
  "thread_filter u c m =
     ((sender_id m = u \<and> receiver_id m = c) \<or> (sender_id m = c \<and> receiver_id m = u))"

definition thread_query ::
  "(message_row list \<Rightarrow> message_row list) \<Rightarrow> uuid \<Rightarrow> uuid \<Rightarrow> message_row list
     \<Rightarrow> message_row list" where
  "thread_query ord u c rows =
     ord (filter (thread_filter u c) (filter (messages_select_policy (Some u)) rows))"

text \<open>\<open>.maybeSingle()\<close>: the row when exactly one matches, no data otherwise.\<close>

definition maybeSingle :: "'a list \<Rightarrow> 'a option" where
  "maybeSingle xs = (case xs of [x] \<Rightarrow> Some x | _ \<Rightarrow> None)"

text \<open>\<open>profile?.name || 'You'\<close>: a missing profile and an empty name both give \<open>You\<close>.\<close>

definition own_name :: "profile_row option \<Rightarrow> string" where
  "own_name prof = (case prof of None \<Rightarrow> ''You'' | Some p \<Rightarrow> if name p = [] then ''You'' else name p)"

definition resolve_reply ::
  "uuid \<Rightarrow> profile_row option \<Rightarrow> contact \<Rightarrow> message_row list \<Rightarrow> message_row \<Rightarrow> message" where
  "resolve_reply u prof c rows msg =
     (case reply_to_id msg of
        None \<Rightarrow> \<lparr>row = msg, reply_to = None\<rparr>
      | Some r \<Rightarrow>
          (case maybeSingle (filter (\<lambda>q. message_id q = r)
                               (filter (messages_select_policy (Some u)) rows)) of
             Some replyData \<Rightarrow>
               \<lparr>row = msg,
                reply_to = Some \<lparr>preview_content = content replyData,
                                 sender_name = (if sender_id replyData = u then own_name prof
                                                else c_name (profile c))\<rparr>\<rparr>
           | None \<Rightarrow> \<lparr>row = msg, reply_to = None\<rparr>))"

text \<open>
  \<open>fetchMessages\<close> gives the list it passes to \<open>setMessages\<close>, or nothing when there is
  no user or no open contact (the state is then left as it is).
\<close>

definition fetchMessages ::
  "(message_row list \<Rightarrow> message_row list) \<Rightarrow> uuid option \<Rightarrow> profile_row option
     \<Rightarrow> contact option \<Rightarrow> store \<Rightarrow> message list option" where
  "fetchMessages ord user prof contact db =
     (case user of
        None \<Rightarrow> None
      | Some u \<Rightarrow>
          (case contact of
             None \<Rightarrow> None
           | Some c \<Rightarrow>
               Some (map (resolve_reply u prof c (messages db))
                       (thread_query ord u (contact_user_id c) (messages db)))))"

subsection \<open>The component's state and its handlers\<close>

record chat_area =
  messages_state :: "message list"
  newMessage :: string
  replyTo :: "message option"
  editingMessage :: "message option"
  editContent :: string
  lastMessageTime :: int
  toasts :: "toast list"

text \<open>
  \<open>handleSendMessage\<close> is an async function with one \<open>await\<close>. Up to the \<open>await\<close> it runs
  the guards, reads the clock, applies the cooldown to \<open>lastMessageTime\<close> and issues the
  insert, or returns early; \<open>handleSendMessage_begin\<close> gives the insert it issues, if
  any. After the \<open>await\<close> it reports the error, or stores \<open>now\<close> as \<open>lastMessageTime\<close> and
  clears the input and the reply selection; that is \<open>handleSendMessage_resume\<close>.
\<close>

definition handleSendMessage_begin ::
  "uuid option \<Rightarrow> contact option \<Rightarrow> int \<Rightarrow> chat_area \<Rightarrow> insert_request option" where
  "handleSendMessage_begin user contact now st =
     (case user of
        None \<Rightarrow> None
      | Some u \<Rightarrow>
          (case contact of
             None \<Rightarrow> None
           | Some c \<Rightarrow>
               if trim (newMessage st) = [] then None
               else if now - lastMessageTime st < MESSAGE_COOLDOWN then None
               else Some \<lparr>ins_sender_id = u, ins_receiver_id = contact_user_id c,
                          ins_content = trim (newMessage st),
                          ins_reply_to_id = map_option (\<lambda>m. message_id (row m)) (replyTo st),
                          ins_now = now\<rparr>))"

definition handleSendMessage_resume :: "insert_request \<Rightarrow> bool \<Rightarrow> chat_area \<Rightarrow> chat_area" where
  "handleSendMessage_resume rq error st =
     (if error
      then st\<lparr>toasts := toasts st @ [\<lparr>title = ''Error'', description = ''Failed to send message.'',
                                        destructive = True\<rparr>]\<rparr>
      else st\<lparr>lastMessageTime := ins_now rq, newMessage := [], replyTo := None\<rparr>)"

text \<open>
  A client session against the store: the component's state, the inserts that have been
  issued and not yet answered, and the messages table. The events are the user typing,
  the user pressing send when the client clock shows \<open>now\<close>, and the store answering the
  oldest outstanding insert (it runs at server time \<open>t\<close> and draws the id \<open>new_id\<close>).
\<close>

record session =
  view :: chat_area
  in_flight :: "insert_request list"
  table :: "message_row list"

datatype event =
    Typing string
  | Send_pressed int
  | Insert_answered int uuid

fun step :: "uuid option \<Rightarrow> contact option \<Rightarrow> session \<Rightarrow> event \<Rightarrow> session" where
  "step user contact s (Typing txt) = s\<lparr>view := (view s)\<lparr>newMessage := txt\<rparr>\<rparr>"
| "step user contact s (Send_pressed now) =
     (case handleSendMessage_begin user contact now (view s) of
        None \<Rightarrow> s
      | Some rq \<Rightarrow> s\<lparr>in_flight := in_flight s @ [rq]\<rparr>)"
| "step user contact s (Insert_answered t new_id) =
     (case in_flight s of
        [] \<Rightarrow> s
      | rq # rest \<Rightarrow>
          (case insert_message user t new_id rq (table s) of
             Inl e \<Rightarrow> s\<lparr>view := handleSendMessage_resume rq True (view s), in_flight := rest\<rparr>
           | Inr rows' \<Rightarrow>
               s\<lparr>view := handleSendMessage_resume rq False (view s), in_flight := rest,
                 table := rows'\<rparr>))"

definition run :: "uuid option \<Rightarrow> contact option \<Rightarrow> session \<Rightarrow> event list \<Rightarrow> session" where
  "run user contact s evs = foldl (step user contact) s evs"

text \<open>One call of \<open>handleSendMessage\<close> that is answered before anything else happens.\<close>

definition handleSendMessage ::
  "uuid option \<Rightarrow> contact option \<Rightarrow> int \<Rightarrow> int \<Rightarrow> uuid \<Rightarrow> session \<Rightarrow> session" where
  "handleSendMessage user contact now t new_id s =
     run user contact s [Send_pressed now, Insert_answered t new_id]"

text \<open>
  \<open>handleEditMessage\<close> and \<open>handleDeleteMessage\<close>, each with the table it leaves behind.
\<close>

definition handleEditMessage ::
  "uuid option \<Rightarrow> int \<Rightarrow> chat_area \<Rightarrow> message_row list \<Rightarrow> chat_area \<times> message_row list" where
  "handleEditMessage auth now st rows =
     (case editingMessage st of
        None \<Rightarrow> (st, rows)
      | Some em \<Rightarrow>
          if trim (editContent st) = [] then (st, rows)
          else (case update_message auth now (message_id (row em)) (trim (editContent st)) rows of
                  Inl e \<Rightarrow>
                    (st\<lparr>toasts := toasts st @ [\<lparr>title = ''Error'',
                                                 description = ''Failed to edit message.'',
                                                 destructive = True\<rparr>]\<rparr>, rows)
                | Inr rows' \<Rightarrow> (st\<lparr>editingMessage := None, editContent := []\<rparr>, rows')))"

definition handleDeleteMessage ::
  "uuid option \<Rightarrow> int \<Rightarrow> uuid \<Rightarrow> chat_area \<Rightarrow> message_row list \<Rightarrow> chat_area \<times> message_row list" where
  "handleDeleteMessage auth now messageId st rows =
     (case delete_message auth now messageId rows of
        Inl e \<Rightarrow>
          (st\<lparr>toasts := toasts st @ [\<lparr>title = ''Error'',
                                       description = ''Failed to delete message.'',
                                       destructive = True\<rparr>]\<rparr>, rows)
      | Inr rows' \<Rightarrow> (st, rows'))"

section \<open>Contact graph manager (ContactsList.tsx)\<close>

record contacts_list =
  contacts_state :: "contact list"
  searchUid :: string
  addDialogOpen :: bool
  loading :: bool
  notices :: "toast list"

text \<open>
  The policies that matter here: a contact row is visible to and inserted by its owner
  only; a profile is visible to its owner and to those who hold its user as a contact.
\<close>

definition contacts_policy :: "uuid option \<Rightarrow> contact_row \<Rightarrow> bool" where
  "contacts_policy auth e = (auth = Some (edge_user_id e))"

definition profiles_select_policy :: "uuid option \<Rightarrow> contact_row list \<Rightarrow> profile_row \<Rightarrow> bool" where
  "profiles_select_policy auth edges p =
     (auth = Some (user_id p) \<or>
      user_id p \<in> set (map edge_contact_user_id (filter (contacts_policy auth) edges)))"

text \<open>
  \<open>supabase.from('contacts').insert({user_id, contact_user_id})\<close>: the insert policy, the
  primary key and \<open>UNIQUE(user_id, contact_user_id)\<close>.
\<close>

definition insert_contact ::
  "uuid option \<Rightarrow> int \<Rightarrow> uuid \<Rightarrow> uuid \<Rightarrow> uuid \<Rightarrow> contact_row list \<Rightarrow> pg_error + contact_row list" where
  "insert_contact auth now new_id u cu edges =
     (let new = \<lparr>edge_id = new_id, edge_user_id = u, edge_contact_user_id = cu,
                 edge_created_at = now\<rparr>
      in if \<not> contacts_policy auth new then Inl Insufficient_privilege
         else if new_id \<in> set (map edge_id edges) then Inl Unique_violation
         else if (u, cu) \<in> set (map (\<lambda>e. (edge_user_id e, edge_contact_user_id e)) edges)
         then Inl Unique_violation
         else Inr (edges @ [new]))"

text \<open>
  \<open>fetchContacts\<close>: the user's contact rows, then the profiles of those users, joined on
  the client; a contact whose profile did not come back gets the placeholder.
\<close>

definition fetchContacts :: "uuid option \<Rightarrow> store \<Rightarrow> contacts_list \<Rightarrow> contacts_list" where
  "fetchContacts user db st =
     (case user of
        None \<Rightarrow> st
      | Some u \<Rightarrow>
          let contactsData = filter (\<lambda>e. edge_user_id e = u)
                               (filter (contacts_policy (Some u)) (contacts db))
          in if contactsData = [] then st\<lparr>contacts_state := []\<rparr>
             else
               let contactUserIds = map edge_contact_user_id contactsData;
                   profilesData = filter (\<lambda>p. user_id p \<in> set contactUserIds)
                                    (filter (profiles_select_policy (Some u) (contacts db))
                                       (profiles db))
               in st\<lparr>contacts_state :=
                       map (\<lambda>e. \<lparr>contact_id = edge_id e,
                                  contact_user_id = edge_contact_user_id e,
                                  profile =
                                    (case find (\<lambda>p. user_id p = edge_contact_user_id e) profilesData of
                                       Some p \<Rightarrow> \<lparr>c_name = name p, c_uid = uid p,
                                                  c_avatar_color = avatar_color p\<rparr>
                                     | None \<Rightarrow> \<lparr>c_name = ''Unknown'', c_uid = ''????????'',
                                                c_avatar_color = ''#888888''\<rparr>)\<rparr>)
                         contactsData\<rparr>)"

text \<open>
  \<open>handleAddContact\<close>, run until its insert is answered and the list it refetches has
  arrived. The duplicate check reads \<open>contacts\<close>, the list held by the component.
\<close>

definition notify :: "toast \<Rightarrow> contacts_list \<Rightarrow> contacts_list" where
  "notify t st = st\<lparr>notices := notices st @ [t]\<rparr>"

definition handleAddContact ::
  "uuid option \<Rightarrow> int \<Rightarrow> uuid \<Rightarrow> contacts_list \<Rightarrow> store \<Rightarrow> contacts_list \<times> store" where
  "handleAddContact user now new_id st db =
     (case user of
        None \<Rightarrow> (st, db)
      | Some u \<Rightarrow>
          if trim (searchUid st) = [] then (st, db)
          else
            let trimmedUid = trim (searchUid st) in
            if length trimmedUid \<noteq> 8
            then (notify \<lparr>title = ''Invalid UID'',
                          description = ''UID must be exactly 8 characters.'',
                          destructive = True\<rparr> st, db)
            else
              (case lookup_profile_by_uid (Some trimmedUid) db of
                 [] \<Rightarrow>
                   (notify \<lparr>title = ''User not found'',
                            description = ''No user exists with that UID.'',
                            destructive = True\<rparr> st\<lparr>loading := False\<rparr>, db)
               | foundProfile # _ \<Rightarrow>
                   if fst foundProfile = u
                   then (notify \<lparr>title = ''Invalid UID'',
                                 description = ''You can't add yourself as a contact.'',
                                 destructive = True\<rparr> st\<lparr>loading := False\<rparr>, db)
                   else if find (\<lambda>c. contact_user_id c = fst foundProfile) (contacts_state st) \<noteq> None
                   then (notify \<lparr>title = ''Already added'',
                                 description = ''This user is already in your contacts.'',
                                 destructive = True\<rparr> st\<lparr>loading := False\<rparr>, db)
                   else
                     (case insert_contact (Some u) now new_id u (fst foundProfile) (contacts db) of
                        Inl e \<Rightarrow>
                          (notify \<lparr>title = ''Error'', description = ''Failed to add contact.'',
                                   destructive = True\<rparr> st\<lparr>loading := False\<rparr>, db)
                      | Inr edges' \<Rightarrow>
                          (let db' = db\<lparr>contacts := edges'\<rparr>;
                               st' = notify \<lparr>title = ''Contact added'',
                                             description = snd foundProfile @
                                               '' has been added to your contacts.'',
                                             destructive = False\<rparr>
                                       (st\<lparr>searchUid := [], addDialogOpen := False\<rparr>)
                           in ((fetchContacts (Some u) db' st')\<lparr>loading := False\<rparr>, db')))))"

section \<open>Sample data\<close>

text \<open>
  Two identities, Ann (user 1, handle \<open>ab12cd34\<close>) and Bob (user 2, handle \<open>zz99yy88\<close>),
  and a third, Cy (user 3).
\<close>

definition ann :: profile_row where
  "ann = \<lparr>profile_id = 11, user_id = 1, name = ''Ann'', uid = ''ab12cd34'',
          avatar_color = ''#ef4444'', profile_created_at = 100, profile_updated_at = 100\<rparr>"

definition bob :: profile_row where
  "bob = \<lparr>profile_id = 12, user_id = 2, name = ''Bob'', uid = ''zz99yy88'',
          avatar_color = ''#22c55e'', profile_created_at = 101, profile_updated_at = 101\<rparr>"

definition cy :: profile_row where
  "cy = \<lparr>profile_id = 13, user_id = 3, name = ''Cy'', uid = ''0f0f0f0f'',
         avatar_color = ''#3b82f6'', profile_created_at = 102, profile_updated_at = 102\<rparr>"

definition people :: store where
  "people = \<lparr>profiles = [ann, bob, cy], contacts = [], messages = []\<rparr>"

definition bob_contact :: contact where
  "bob_contact = \<lparr>contact_id = 21, contact_user_id = 2,
                  profile = \<lparr>c_name = ''Bob'', c_uid = ''zz99yy88'', c_avatar_color = ''#22c55e''\<rparr>\<rparr>"

text \<open>
  Messages between Ann and Bob: \<open>hello\<close> from Ann, Bob's reply to it, and a third that
  shares the reply's creation time. Cy's note to Ann, and Ann's message to Bob that
  replies to Cy's note.
\<close>

definition hello :: message_row where
  "hello = \<lparr>message_id = 31, sender_id = 1, receiver_id = 2, content = ''hello'',
            reply_to_id = None, is_edited = False, created_at = 1000, updated_at = 1000\<rparr>"

definition answer :: message_row where
  "answer = \<lparr>message_id = 32, sender_id = 2, receiver_id = 1, content = ''hi Ann'',
             reply_to_id = Some 31, is_edited = False, created_at = 2000, updated_at = 2000\<rparr>"

definition again :: message_row where
  "again = \<lparr>message_id = 33, sender_id = 1, receiver_id = 2, content = ''again'',
            reply_to_id = None, is_edited = False, created_at = 2000, updated_at = 2000\<rparr>"



definition ann_contact :: contact where
  "ann_contact = \<lparr>contact_id = 22, contact_user_id = 1,
                  profile = \<lparr>c_name = ''Ann'', c_uid = ''ab12cd34'', c_avatar_color = ''#ef4444''\<rparr>\<rparr>"

text \<open>
  Two sorts a server may perform: an insertion sort on \<open>created_at\<close> that leaves rows
  with equal keys as the scan delivered them, and the same sort run on the scan in
  reverse.
\<close>

definition scan_order_sort :: "message_row list \<Rightarrow> message_row list" where
  "scan_order_sort rows = sort_key created_at rows"

definition reverse_scan_sort :: "message_row list \<Rightarrow> message_row list" where
  "reverse_scan_sort rows = sort_key created_at (rev rows)"

text \<open>A chat view in which nothing has been typed, selected or sent yet.\<close>

definition fresh_view :: chat_area where
  "fresh_view = \<lparr>messages_state = [], newMessage = [], replyTo = None, editingMessage = None,
                 editContent = [], lastMessageTime = 0, toasts = []\<rparr>"

text \<open>
  The add-contact dialog, open and empty, with no contacts loaded; and the contact row
  by which Ann holds Bob.
\<close>

definition add_dialog :: contacts_list where
  "add_dialog = \<lparr>contacts_state = [], searchUid = [], addDialogOpen = True, loading = False,
                 notices = []\<rparr>"

definition ann_holds_bob :: contact_row where
  "ann_holds_bob = \<lparr>edge_id = 21, edge_user_id = 1, edge_contact_user_id = 2,
                    edge_created_at = 200\<rparr>"

section \<open>The handle-generation loop is bounded\<close>

declare regenerate_loop.simps [simp del]

lemma regenerate_loop_exhausted:
  assumes "\<forall>i. a \<le> i \<and> i < max_attempts \<longrightarrow> uid_conflict auth p (candidate md5 draws i) rows"
    and "a < max_attempts"
  shows "regenerate_loop md5 draws auth now p a rows =
           Inl (Raise_exception ''Failed to generate unique UID after % attempts'' [int max_attempts])"
  using assms
proof (induction "max_attempts - a" arbitrary: a)
  case 0
  then show ?case by simp
next
  case (Suc n)
  have c: "uid_conflict auth p (candidate md5 draws a) rows" using Suc.prems by simp
  show ?case
  proof (cases "a + 1 \<ge> max_attempts")
    case True
    then show ?thesis using c
      by (subst regenerate_loop.simps) (simp add: update_profile_uid_def Let_def)
  next
    case False
    then have "regenerate_loop md5 draws auth now p (a + 1) rows =
           Inl (Raise_exception ''Failed to generate unique UID after % attempts'' [int max_attempts])"
      using Suc.hyps Suc.prems by (intro Suc.hyps(1)) auto
    then show ?thesis using c False
      by (subst regenerate_loop.simps) (simp add: update_profile_uid_def Let_def)
  qed
qed

lemma regenerate_loop_success:
  assumes "\<forall>i. a \<le> i \<and> i < k \<longrightarrow> uid_conflict auth p (candidate md5 draws i) rows"
    and "\<not> uid_conflict auth p (candidate md5 draws k) rows"
    and "a \<le> k" and "k < max_attempts"
  shows "regenerate_loop md5 draws auth now p a rows =
           Inr (candidate md5 draws k,
                map (\<lambda>r. if update_target auth p r
                          then r\<lparr>uid := candidate md5 draws k, profile_updated_at := now\<rparr> else r) rows)"
  using assms
proof (induction "k - a" arbitrary: a)
  case 0
  then have "a = k" by simp
  then show ?case using "0.prems"(2)
    by (subst regenerate_loop.simps) (simp add: update_profile_uid_def Let_def)
next
  case (Suc n)
  have c: "uid_conflict auth p (candidate md5 draws a) rows" using Suc.prems Suc.hyps by simp
  have lt: "\<not> a + 1 \<ge> max_attempts" using Suc.prems Suc.hyps by simp
  have "regenerate_loop md5 draws auth now p (a + 1) rows =
           Inr (candidate md5 draws k,
                map (\<lambda>r. if update_target auth p r
                          then r\<lparr>uid := candidate md5 draws k, profile_updated_at := now\<rparr> else r) rows)"
    using Suc.hyps Suc.prems by (intro Suc.hyps(1)) auto
  then show ?case using c lt
    by (subst regenerate_loop.simps) (simp add: update_profile_uid_def Let_def)
qed

text \<open>
  C1. A call of \<open>regenerate_profile_uid\<close> by the authenticated user \<open>p\<close> on their own
  identity always returns (the function is total: the loop's recursion is well-founded
  on \<open>max_attempts - attempt\<close>). The bound is the constant \<open>max_attempts\<close>, which is 10. When
  each of the first \<open>max_attempts\<close> candidates meets a uniqueness conflict, the call
  raises the exception; when the first \<open>k < max_attempts\<close> candidates conflict and the
  next one does not, the call returns that candidate, and the store it leaves has it
  written to the caller's profile row.
\<close>

theorem regenerate_profile_uid_bounded_retry:
  "max_attempts = 10 \<and>
    ((\<forall>i<max_attempts. uid_conflict (Some p) p (candidate md5 draws i) (profiles db)) \<longrightarrow>
       regenerate_profile_uid md5 draws (Some p) now p db =
         Inl (Raise_exception ''Failed to generate unique UID after % attempts'' [10])) \<and>
    (k < max_attempts \<and> (\<forall>i<k. uid_conflict (Some p) p (candidate md5 draws i) (profiles db)) \<and>
       \<not> uid_conflict (Some p) p (candidate md5 draws k) (profiles db) \<longrightarrow>
       regenerate_profile_uid md5 draws (Some p) now p db =
         Inr (candidate md5 draws k,
              db\<lparr>profiles := map (\<lambda>r. if user_id r = p
                      then r\<lparr>uid := candidate md5 draws k, profile_updated_at := now\<rparr> else r)
                     (profiles db)\<rparr>))"
proof (intro conjI impI)
  show "max_attempts = 10" by (simp add: max_attempts_def)
next
  assume "\<forall>i<max_attempts. uid_conflict (Some p) p (candidate md5 draws i) (profiles db)"
  then have "regenerate_loop md5 draws (Some p) now p 0 (profiles db) =
           Inl (Raise_exception ''Failed to generate unique UID after % attempts'' [int max_attempts])"
    by (intro regenerate_loop_exhausted) (auto simp: max_attempts_def)
  then show "regenerate_profile_uid md5 draws (Some p) now p db =
         Inl (Raise_exception ''Failed to generate unique UID after % attempts'' [10])"
    by (simp add: regenerate_profile_uid_def max_attempts_def)
next
  assume h: "k < max_attempts \<and>
       (\<forall>i<k. uid_conflict (Some p) p (candidate md5 draws i) (profiles db)) \<and>
       \<not> uid_conflict (Some p) p (candidate md5 draws k) (profiles db)"
  have t: "update_target (Some p) p = (\<lambda>r. user_id r = p)"
    by (auto simp: update_target_def fun_eq_iff)
  have "regenerate_loop md5 draws (Some p) now p 0 (profiles db) =
           Inr (candidate md5 draws k,
                map (\<lambda>r. if update_target (Some p) p r
                          then r\<lparr>uid := candidate md5 draws k, profile_updated_at := now\<rparr> else r)
                  (profiles db))"
    using h by (intro regenerate_loop_success) auto
  then show "regenerate_profile_uid md5 draws (Some p) now p db =
         Inr (candidate md5 draws k,
              db\<lparr>profiles := map (\<lambda>r. if user_id r = p
                      then r\<lparr>uid := candidate md5 draws k, profile_updated_at := now\<rparr> else r)
                     (profiles db)\<rparr>)"
    by (simp add: regenerate_profile_uid_def t)
qed

theorem regenerate_profile_uid_bounded_retry_witness:
  "regenerate_profile_uid (\<lambda>s. s) (\<lambda>n. ''zz99yy88'') (Some 1) 500 1 people =
     Inl (Raise_exception ''Failed to generate unique UID after % attempts'' [10]) \<and>
   regenerate_profile_uid (\<lambda>s. s) (\<lambda>n. if n < 2 then ''zz99yy88'' else ''77aa11bb'') (Some 1) 500 1 people =
     Inr (''77aa11bb'',
          people\<lparr>profiles := [ann\<lparr>uid := ''77aa11bb'', profile_updated_at := 500\<rparr>, bob, cy]\<rparr>)"
proof -
  let ?d = "\<lambda>n::nat. if n < 2 then ''zz99yy88'' else ''77aa11bb''"
  have taken: "uid_conflict (Some 1) 1 ''zz99yy88'' (profiles people)"
    by (simp add: uid_conflict_def update_target_def people_def ann_def bob_def cy_def)
  have free: "\<not> uid_conflict (Some 1) 1 ''77aa11bb'' (profiles people)"
    by (simp add: uid_conflict_def update_target_def people_def ann_def bob_def cy_def)
  have c1: "\<And>i. candidate (\<lambda>s. s) (\<lambda>n. ''zz99yy88'') i = ''zz99yy88''"
    by (simp add: candidate_def pg_substring_def)
  have c2: "\<And>i. i < 2 \<Longrightarrow> candidate (\<lambda>s. s) ?d i = ''zz99yy88''"
    by (simp add: candidate_def pg_substring_def)
  have c3: "candidate (\<lambda>s. s) ?d 2 = ''77aa11bb''"
    by (simp add: candidate_def pg_substring_def)
  have m: "(2::nat) < max_attempts" by (simp add: max_attempts_def)
  have upd: "map (\<lambda>r. if user_id r = 1 then r\<lparr>uid := ''77aa11bb'', profile_updated_at := 500\<rparr> else r)
               (profiles people) = [ann\<lparr>uid := ''77aa11bb'', profile_updated_at := 500\<rparr>, bob, cy]"
    by (simp add: people_def ann_def bob_def cy_def)
  have a: "regenerate_profile_uid (\<lambda>s. s) (\<lambda>n. ''zz99yy88'') (Some 1) 500 1 people =
     Inl (Raise_exception ''Failed to generate unique UID after % attempts'' [10])"
    using regenerate_profile_uid_bounded_retry [of 1 "\<lambda>s. s" "\<lambda>n. ''zz99yy88''" people 500 0]
    by (simp only: c1 taken simp_thms)
  have h2: "\<forall>i<2. uid_conflict (Some 1) 1 (candidate (\<lambda>s. s) ?d i) (profiles people)"
    using c2 taken by simp
  have f2: "\<not> uid_conflict (Some 1) 1 (candidate (\<lambda>s. s) ?d 2) (profiles people)"
    using free by (simp only: c3 simp_thms)
  have "regenerate_profile_uid (\<lambda>s. s) ?d (Some 1) 500 1 people =
     Inr (candidate (\<lambda>s. s) ?d 2,
          people\<lparr>profiles := map (\<lambda>r. if user_id r = 1
                      then r\<lparr>uid := candidate (\<lambda>s. s) ?d 2, profile_updated_at := 500\<rparr> else r)
                     (profiles people)\<rparr>)"
    using regenerate_profile_uid_bounded_retry [of 1 "\<lambda>s. s" ?d people 500 2] h2 f2 m
    by blast
  then have b: "regenerate_profile_uid (\<lambda>s. s) ?d (Some 1) 500 1 people =
     Inr (''77aa11bb'',
          people\<lparr>profiles := [ann\<lparr>uid := ''77aa11bb'', profile_updated_at := 500\<rparr>, bob, cy]\<rparr>)"
    by (simp only: c3 upd)
  show ?thesis using a b by (rule conjI)
qed

section \<open>Lookup by handle\<close>

text \<open>
  C5. For an input whose length is not 8 (and for \<open>NULL\<close>), \<open>lookup_profile_by_uid\<close>
  returns the empty table whatever the store holds: the guard returns before the
  \<open>SELECT\<close>, and no branch of the function raises. For an 8-character handle that some
  profile carries, it returns exactly one row, the \<open>(user_id, name)\<close> of a profile with
  that handle.
\<close>

theorem lookup_profile_by_uid_contract:
  "(length u \<noteq> 8 \<longrightarrow> lookup_profile_by_uid (Some u) db = []) \<and>
   lookup_profile_by_uid None db = [] \<and>
   (length u = 8 \<and> (\<exists>p \<in> set (profiles db). uid p = u) \<longrightarrow>
      (\<exists>p \<in> set (profiles db). uid p = u \<and>
         lookup_profile_by_uid (Some u) db = [(user_id p, name p)]))"
proof (intro conjI impI)
  assume h: "length u = 8 \<and> (\<exists>p \<in> set (profiles db). uid p = u)"
  let ?hits = "filter (\<lambda>p. uid p = u) (profiles db)"
  from h have "?hits \<noteq> []" by (auto simp: filter_empty_conv)
  then obtain q qs where q: "?hits = q # qs" by (cases ?hits) auto
  then have "q \<in> set ?hits" by simp
  then have "q \<in> set (profiles db)" "uid q = u" by auto
  moreover have "lookup_profile_by_uid (Some u) db = [(user_id q, name q)]"
    using h q by (simp add: lookup_profile_by_uid_def)
  ultimately show "\<exists>p \<in> set (profiles db). uid p = u \<and>
         lookup_profile_by_uid (Some u) db = [(user_id p, name p)]" by blast
qed (simp_all add: lookup_profile_by_uid_def)

theorem lookup_profile_by_uid_contract_witness:
  "lookup_profile_by_uid (Some ''zz99'') people = [] \<and>
   lookup_profile_by_uid (Some ''zz99yy88'') people = [(2, ''Bob'')]"
proof -
  have b: "bob \<in> set (profiles people)" by (simp add: people_def)
  have u: "uid bob = ''zz99yy88''" by (simp add: bob_def)
  have others: "\<And>p. p \<in> set (profiles people) \<Longrightarrow> uid p = ''zz99yy88'' \<Longrightarrow> p = bob"
    by (auto simp: people_def ann_def cy_def)
  have "\<exists>p \<in> set (profiles people). uid p = ''zz99yy88'' \<and>
         lookup_profile_by_uid (Some ''zz99yy88'') people = [(user_id p, name p)]"
    using lookup_profile_by_uid_contract [of "''zz99yy88''" people] b u by auto
  then have "lookup_profile_by_uid (Some ''zz99yy88'') people = [(user_id bob, name bob)]"
    using others by blast
  moreover have "lookup_profile_by_uid (Some ''zz99'') people = []"
    using lookup_profile_by_uid_contract [of "''zz99''" people] by simp
  ultimately show ?thesis by (simp add: bob_def)
qed

section \<open>The length of a regenerated handle\<close>

lemma candidate_length:
  "length (md5 (draws n)) \<ge> 8 \<Longrightarrow> length (candidate md5 draws n) = 8"
  by (simp add: candidate_def pg_substring_def)

text \<open>
  C4. The settings page does not produce 8 characters for every random number. For the
  number one half, whose base-36 text is \<open>0.i\<close>, \<open>handleRegenerateUid\<close> stores the
  one-character handle \<open>i\<close> in Ann's profile and reports success; the lookup function
  then rejects that handle on its length.
\<close>

theorem handleRegenerateUid_short_handle:
  "handleRegenerateUid ''0.i'' (Some 1) 500 (Some ann) people =
     ([\<lparr>title = ''UID regenerated'', description = ''Your new UID is ready to share.'',
        destructive = False\<rparr>],
      people\<lparr>profiles := [ann\<lparr>uid := ''i'', profile_updated_at := 500\<rparr>, bob, cy]\<rparr>) \<and>
   length ''i'' \<noteq> 8 \<and>
   lookup_profile_by_uid (Some ''i'')
     (people\<lparr>profiles := [ann\<lparr>uid := ''i'', profile_updated_at := 500\<rparr>, bob, cy]\<rparr>) = []"
  by (simp add: handleRegenerateUid_def substring_def update_profile_uid_def uid_conflict_def
        update_target_def lookup_profile_by_uid_def people_def ann_def bob_def cy_def)

section \<open>The order of a fetched thread\<close>

lemma thread_filter_visible:
  "thread_filter u c m \<Longrightarrow> messages_select_policy (Some u) m"
  by (auto simp: thread_filter_def messages_select_policy_def)

lemma thread_rows_filter:
  "filter (thread_filter u c) (filter (messages_select_policy (Some u)) rows) =
   filter (thread_filter u c) rows"
  by (auto simp: filter_filter thread_filter_visible intro: filter_cong)

lemma thread_filter_sym: "thread_filter u c = thread_filter c u"
  by (auto simp: thread_filter_def fun_eq_iff)

lemma thread_query_mset:
  assumes "orders_by_created_at ord"
  shows "mset (thread_query ord u c rows) = mset (filter (thread_filter u c) rows)"
proof -
  have "mset (ord (filter (thread_filter u c) rows)) = mset (filter (thread_filter u c) rows)"
    using assms unfolding orders_by_created_at_def by blast
  then show ?thesis unfolding thread_query_def thread_rows_filter .
qed

lemma thread_query_sorted:
  "orders_by_created_at ord \<Longrightarrow> sorted (map created_at (thread_query ord u c rows))"
  by (simp add: thread_query_def orders_by_created_at_def)

lemma thread_query_set:
  assumes "orders_by_created_at ord"
  shows "set (thread_query ord u c rows) = {m \<in> set rows. thread_filter u c m}"
proof -
  have "set_mset (mset (thread_query ord u c rows)) =
        set_mset (mset (filter (thread_filter u c) rows))"
    using thread_query_mset [OF assms] by simp
  then show ?thesis by auto
qed

lemma sorted_key_positions:
  assumes "sorted (map f xs)" and "i < length xs" and "j < length xs" and "f (xs ! i) < f (xs ! j)"
  shows "i < j"
proof (rule ccontr)
  assume "\<not> i < j"
  then have "j \<le> i" by simp
  then have "map f xs ! j \<le> map f xs ! i"
    using assms(1,2) by (intro sorted_nth_mono) auto
  then show False using assms(2,3,4) by simp
qed

lemma fetchMessages_rows:
  "fetchMessages ord (Some u) prof (Some c) db =
     Some (map (resolve_reply u prof c (messages db))
            (thread_query ord u (contact_user_id c) (messages db)))"
  by (simp add: fetchMessages_def)

lemma row_resolve_reply [simp]: "row (resolve_reply u prof c rows m) = m"
  by (simp add: resolve_reply_def split: option.splits)

lemma scan_order_sort_orders: "orders_by_created_at scan_order_sort"
  by (simp add: orders_by_created_at_def scan_order_sort_def)

lemma reverse_scan_sort_orders: "orders_by_created_at reverse_scan_sort"
  by (simp add: orders_by_created_at_def reverse_scan_sort_def)

text \<open>Every arrangement of the rows that ascends in \<open>created_at\<close> is the work of some sort.\<close>

lemma sorted_arrangement_is_possible:
  assumes "mset out = mset xs" and "sorted (map created_at out)"
  shows "\<exists>ord. orders_by_created_at ord \<and> ord xs = out"
proof -
  let ?ord = "\<lambda>rows. if mset rows = mset out then out else sort_key created_at rows"
  have "orders_by_created_at ?ord"
    using assms(2) by (simp add: orders_by_created_at_def)
  moreover have "?ord xs = out" using assms(1) by simp
  ultimately show ?thesis by blast
qed

lemma fetched_pairs_in_order:
  assumes "orders_by_created_at ord"
  shows "\<exists>ms. fetchMessages ord (Some u) prof (Some c) db = Some ms \<and>
     mset (map row ms) = mset (filter (thread_filter u (contact_user_id c)) (messages db)) \<and>
     sorted (map (\<lambda>m. created_at (row m)) ms) \<and>
     (\<forall>i j. i < length ms \<and> j < length ms \<and>
            created_at (row (ms ! i)) < created_at (row (ms ! j)) \<longrightarrow> i < j)"
proof -
  let ?q = "thread_query ord u (contact_user_id c) (messages db)"
  let ?ms = "map (resolve_reply u prof c (messages db)) ?q"
  have rows: "map row ?ms = ?q" by (simp add: comp_def)
  have srt: "sorted (map (\<lambda>m. created_at (row m)) ?ms)"
    using thread_query_sorted [OF assms, of u "contact_user_id c" "messages db"]
    by (simp add: comp_def)
  have pos: "\<forall>i j. i < length ?ms \<and> j < length ?ms \<and>
            created_at (row (?ms ! i)) < created_at (row (?ms ! j)) \<longrightarrow> i < j"
    using sorted_key_positions [OF srt] by blast
  have "mset (map row ?ms) = mset (filter (thread_filter u (contact_user_id c)) (messages db))"
    by (simp only: rows thread_query_mset [OF assms])
  then show ?thesis
    using srt pos fetchMessages_rows [of ord u prof c db] by blast
qed

text \<open>
  C2, as the code has it. Whatever sort the server performs for the request, the fetch
  of an open thread delivers a list; its rows are exactly the messages exchanged by the
  two parties, in ascending order of \<open>created_at\<close>, so of two messages with creation
  times \<open>t1 < t2\<close> the earlier one comes first. The same holds when the other party
  fetches the thread: the same messages, again with the earlier before the later.
  The creation time is the only sort key, and the order of messages with equal creation
  times is not determined: every arrangement of the thread that ascends in \<open>created_at\<close>
  is a result the query admits.
\<close>

theorem fetchMessages_ordered_by_created_at:
  assumes "orders_by_created_at ord"
  shows "\<exists>ms. fetchMessages ord (Some u) prof (Some c) db = Some ms \<and>
     mset (map row ms) = mset (filter (thread_filter u (contact_user_id c)) (messages db)) \<and>
     sorted (map (\<lambda>m. created_at (row m)) ms) \<and>
     (\<forall>i j. i < length ms \<and> j < length ms \<and>
            created_at (row (ms ! i)) < created_at (row (ms ! j)) \<longrightarrow> i < j) \<and>
     (\<forall>ord' c' prof'. orders_by_created_at ord' \<and> contact_user_id c' = u \<longrightarrow>
        (\<exists>ms'. fetchMessages ord' (Some (contact_user_id c)) prof' (Some c') db = Some ms' \<and>
               mset (map row ms') = mset (map row ms) \<and>
               (\<forall>i j. i < length ms' \<and> j < length ms' \<and>
                      created_at (row (ms' ! i)) < created_at (row (ms' ! j)) \<longrightarrow> i < j))) \<and>
     (\<forall>out. mset out = mset (filter (thread_filter u (contact_user_id c)) (messages db)) \<and>
            sorted (map created_at out) \<longrightarrow>
        (\<exists>ord'. orders_by_created_at ord' \<and>
                thread_query ord' u (contact_user_id c) (messages db) = out))"
proof -
  obtain ms where ms: "fetchMessages ord (Some u) prof (Some c) db = Some ms"
    "mset (map row ms) = mset (filter (thread_filter u (contact_user_id c)) (messages db))"
    "sorted (map (\<lambda>m. created_at (row m)) ms)"
    "\<forall>i j. i < length ms \<and> j < length ms \<and>
            created_at (row (ms ! i)) < created_at (row (ms ! j)) \<longrightarrow> i < j"
    using fetched_pairs_in_order [OF assms, of u prof c db] by blast
  have other: "\<forall>ord' c' prof'. orders_by_created_at ord' \<and> contact_user_id c' = u \<longrightarrow>
        (\<exists>ms'. fetchMessages ord' (Some (contact_user_id c)) prof' (Some c') db = Some ms' \<and>
               mset (map row ms') = mset (map row ms) \<and>
               (\<forall>i j. i < length ms' \<and> j < length ms' \<and>
                      created_at (row (ms' ! i)) < created_at (row (ms' ! j)) \<longrightarrow> i < j))"
  proof (intro allI impI)
    fix ord' and c' :: contact and prof' :: "profile_row option"
    assume h: "orders_by_created_at ord' \<and> contact_user_id c' = u"
    then obtain ms' where
      "fetchMessages ord' (Some (contact_user_id c)) prof' (Some c') db = Some ms'"
      "mset (map row ms') =
         mset (filter (thread_filter (contact_user_id c) (contact_user_id c')) (messages db))"
      "\<forall>i j. i < length ms' \<and> j < length ms' \<and>
            created_at (row (ms' ! i)) < created_at (row (ms' ! j)) \<longrightarrow> i < j"
      using fetched_pairs_in_order [of ord' "contact_user_id c" prof' c' db] by blast
    moreover have "thread_filter (contact_user_id c) (contact_user_id c') =
                   thread_filter u (contact_user_id c)"
      using h thread_filter_sym [of u "contact_user_id c"] by simp
    ultimately show "\<exists>ms'. fetchMessages ord' (Some (contact_user_id c)) prof' (Some c') db = Some ms' \<and>
               mset (map row ms') = mset (map row ms) \<and>
               (\<forall>i j. i < length ms' \<and> j < length ms' \<and>
                      created_at (row (ms' ! i)) < created_at (row (ms' ! j)) \<longrightarrow> i < j)"
      using ms(2) by auto
  qed
  have ties: "\<forall>out. mset out = mset (filter (thread_filter u (contact_user_id c)) (messages db)) \<and>
            sorted (map created_at out) \<longrightarrow>
        (\<exists>ord'. orders_by_created_at ord' \<and>
                thread_query ord' u (contact_user_id c) (messages db) = out)"
  proof (intro allI impI)
    fix out
    assume "mset out = mset (filter (thread_filter u (contact_user_id c)) (messages db)) \<and>
            sorted (map created_at out)"
    then have "\<exists>ord'. orders_by_created_at ord' \<and>
                 ord' (filter (thread_filter u (contact_user_id c)) (messages db)) = out"
      using sorted_arrangement_is_possible by blast
    then show "\<exists>ord'. orders_by_created_at ord' \<and>
                thread_query ord' u (contact_user_id c) (messages db) = out"
      unfolding thread_query_def thread_rows_filter .
  qed
  show ?thesis using ms other ties by blast
qed

theorem fetchMessages_ordered_by_created_at_witness:
  "created_at hello < created_at answer \<and>
   fetchMessages scan_order_sort (Some 1) (Some ann) (Some bob_contact)
       (people\<lparr>messages := [answer, hello]\<rparr>) =
     Some [\<lparr>row = hello, reply_to = None\<rparr>,
           \<lparr>row = answer,
            reply_to = Some \<lparr>preview_content = ''hello'', sender_name = ''Ann''\<rparr>\<rparr>] \<and>
   (\<exists>ms'. fetchMessages reverse_scan_sort (Some 2) (Some bob) (Some ann_contact)
             (people\<lparr>messages := [answer, hello]\<rparr>) = Some ms' \<and>
          mset (map row ms') = mset [hello, answer] \<and>
          (\<forall>i j. i < length ms' \<and> j < length ms' \<and>
                 created_at (row (ms' ! i)) < created_at (row (ms' ! j)) \<longrightarrow> i < j)) \<and>
   (\<exists>ord'. orders_by_created_at ord' \<and>
           thread_query ord' 1 (contact_user_id bob_contact)
             (messages (people\<lparr>messages := [answer, hello]\<rparr>)) = [hello, answer])"
proof -
  let ?db = "people\<lparr>messages := [answer, hello]\<rparr>"
  let ?thread = "filter (thread_filter 1 (contact_user_id bob_contact)) (messages ?db)"
  let ?inorder = "\<lambda>ms :: message list. \<forall>i j. i < length ms \<and> j < length ms \<and>
            created_at (row (ms ! i)) < created_at (row (ms ! j)) \<longrightarrow> i < j"
  let ?other = "\<lambda>ms :: message list.
     \<forall>ord' c' prof'. orders_by_created_at ord' \<and> contact_user_id c' = 1 \<longrightarrow>
        (\<exists>ms'. fetchMessages ord' (Some (contact_user_id bob_contact)) prof' (Some c') ?db = Some ms' \<and>
               mset (map row ms') = mset (map row ms) \<and> ?inorder ms')"
  let ?ties = "\<forall>out. mset out = mset ?thread \<and> sorted (map created_at out) \<longrightarrow>
        (\<exists>ord'. orders_by_created_at ord' \<and>
                thread_query ord' 1 (contact_user_id bob_contact) (messages ?db) = out)"
  have ev: "fetchMessages scan_order_sort (Some 1) (Some ann) (Some bob_contact) ?db =
     Some [\<lparr>row = hello, reply_to = None\<rparr>,
           \<lparr>row = answer,
            reply_to = Some \<lparr>preview_content = ''hello'', sender_name = ''Ann''\<rparr>\<rparr>]"
    by (simp add: fetchMessages_def thread_query_def scan_order_sort_def thread_filter_def
          messages_select_policy_def resolve_reply_def maybeSingle_def own_name_def people_def
          ann_def bob_contact_def hello_def answer_def)
  have cu: "contact_user_id ann_contact = 1" "contact_user_id bob_contact = 2"
    by (simp_all add: ann_contact_def bob_contact_def)
  have thread: "?thread = [answer, hello]"
    by (simp add: thread_filter_def bob_contact_def hello_def answer_def)
  have "mset [hello, answer] = mset [answer, hello]" by (simp add: add.commute)
  then have perm: "mset [hello, answer] = mset ?thread" by (simp only: thread)
  have srt: "sorted (map created_at [hello, answer])" by (simp add: hello_def answer_def)
  note t = fetchMessages_ordered_by_created_at
             [OF scan_order_sort_orders, of 1 "Some ann" bob_contact ?db]
  from t obtain ms where all:
    "fetchMessages scan_order_sort (Some 1) (Some ann) (Some bob_contact) ?db = Some ms \<and>
     mset (map row ms) = mset ?thread \<and>
     sorted (map (\<lambda>m. created_at (row m)) ms) \<and> ?inorder ms \<and> ?other ms \<and> ?ties" ..
  from all have b: "mset (map row ms) = mset ?thread" by (elim conjE)
  from all have c: "?other ms" by (elim conjE)
  from all have d: "?ties" by (elim conjE)
  have pre: "orders_by_created_at reverse_scan_sort \<and> contact_user_id ann_contact = 1"
    using reverse_scan_sort_orders cu(1) by (rule conjI)
  from c have "orders_by_created_at reverse_scan_sort \<and> contact_user_id ann_contact = 1 \<longrightarrow>
        (\<exists>ms'. fetchMessages reverse_scan_sort (Some (contact_user_id bob_contact)) (Some bob)
                 (Some ann_contact) ?db = Some ms' \<and>
               mset (map row ms') = mset (map row ms) \<and> ?inorder ms')"
    by (elim allE)
  then have "\<exists>ms'. fetchMessages reverse_scan_sort (Some (contact_user_id bob_contact)) (Some bob)
                 (Some ann_contact) ?db = Some ms' \<and>
               mset (map row ms') = mset (map row ms) \<and> ?inorder ms'"
    using pre by (rule mp)
  then obtain ms' where o:
    "fetchMessages reverse_scan_sort (Some (contact_user_id bob_contact)) (Some bob)
                 (Some ann_contact) ?db = Some ms' \<and>
               mset (map row ms') = mset (map row ms) \<and> ?inorder ms'" ..
  from o have o1: "fetchMessages reverse_scan_sort (Some 2) (Some bob) (Some ann_contact) ?db = Some ms'"
    unfolding cu(2) by (elim conjE)
  from o have "mset (map row ms') = mset (map row ms)" by (elim conjE)
  then have o2: "mset (map row ms') = mset [hello, answer]" by (simp only: b perm)
  from o have o3: "?inorder ms'" by (elim conjE)
  have other: "\<exists>ms'. fetchMessages reverse_scan_sort (Some 2) (Some bob) (Some ann_contact) ?db =
            Some ms' \<and> mset (map row ms') = mset [hello, answer] \<and> ?inorder ms'"
    using o1 o2 o3 by (intro exI [of _ ms'] conjI)
  from d have "mset [hello, answer] = mset ?thread \<and> sorted (map created_at [hello, answer]) \<longrightarrow>
        (\<exists>ord'. orders_by_created_at ord' \<and>
                thread_query ord' 1 (contact_user_id bob_contact) (messages ?db) = [hello, answer])"
    by (elim allE)
  moreover have "mset [hello, answer] = mset ?thread \<and> sorted (map created_at [hello, answer])"
    using perm srt by (rule conjI)
  ultimately have ties: "\<exists>ord'. orders_by_created_at ord' \<and>
           thread_query ord' 1 (contact_user_id bob_contact) (messages ?db) = [hello, answer]"
    by (rule mp)
  have "created_at hello < created_at answer" by (simp add: hello_def answer_def)
  then show ?thesis using ev other ties by (intro conjI)
qed

text \<open>
  The claim as written fails on the tie-break: \<open>answer\<close> and \<open>again\<close> have the same
  creation time, and of two sorts that each order by \<open>created_at\<close> one returns them as
  \<open>answer, again\<close> and the other as \<open>again, answer\<close>, the larger id first; no second key
  decides.
\<close>

theorem thread_order_of_ties_counterexample:
  "orders_by_created_at scan_order_sort \<and> orders_by_created_at reverse_scan_sort \<and>
   created_at answer = created_at again \<and> message_id answer < message_id again \<and>
   thread_query scan_order_sort 1 2 [answer, again] = [answer, again] \<and>
   thread_query reverse_scan_sort 1 2 [answer, again] = [again, answer]"
  using scan_order_sort_orders reverse_scan_sort_orders
  by (simp add: thread_query_def scan_order_sort_def reverse_scan_sort_def thread_filter_def
        messages_select_policy_def answer_def again_def)

section \<open>Reply previews\<close>

lemma fetchMessages_member:
  assumes "orders_by_created_at ord"
    and "m \<in> set (messages db)" and "thread_filter u (contact_user_id c) m"
  shows "\<exists>ms. fetchMessages ord (Some u) prof (Some c) db = Some ms \<and>
              resolve_reply u prof c (messages db) m \<in> set ms"
proof -
  have "m \<in> set (thread_query ord u (contact_user_id c) (messages db))"
    using assms by (simp add: thread_query_set)
  then show ?thesis by (simp add: fetchMessages_rows)
qed

lemma filter_key_unique:
  "distinct (map f xs) \<Longrightarrow> q \<in> set xs \<Longrightarrow> filter (\<lambda>x. f x = f q) xs = [q]"
proof (induction xs)
  case Nil
  then show ?case by simp
next
  case (Cons x xs)
  show ?case
  proof (cases "x = q")
    case True
    then have "f q \<notin> f ` set xs" using Cons.prems by simp
    then have "\<forall>x \<in> set xs. f x \<noteq> f q" by (metis imageI)
    then have "filter (\<lambda>x. f x = f q) xs = []" by (simp add: filter_empty_conv)
    then show ?thesis using True by simp
  next
    case False
    then have "q \<in> set xs" using Cons.prems by simp
    then have "f x \<noteq> f q" using Cons.prems by auto
    then show ?thesis using Cons \<open>q \<in> set xs\<close> by simp
  qed
qed




section \<open>Deleting a message that has replies\<close>

lemma update_rows_total:
  "(\<forall>r \<in> set rs. sel r \<longrightarrow> f r = Inr (g r)) \<Longrightarrow>
   update_rows sel f rs = Inr (map (\<lambda>r. if sel r then g r else r) rs)"
  by (induction rs) simp_all

lemma validate_ignores_other_columns:
  "validate_message_content x = Inr x \<Longrightarrow>
   messages_before_update now (x\<lparr>reply_to_id := None\<rparr>) =
     Inr (x\<lparr>reply_to_id := None, updated_at := now\<rparr>)"
  by (simp add: messages_before_update_def update_updated_at_column_def
        validate_message_content_def split: if_splits)

lemma delete_message_rows:
  assumes "\<forall>x \<in> set rows. validate_message_content x = Inr x"
    and "M \<in> set rows" and "sender_id M = a"
  shows "delete_message (Some a) now (message_id M) rows =
     Inr (map (\<lambda>r. if reply_to_id r = Some (message_id M)
                    then r\<lparr>reply_to_id := None, updated_at := now\<rparr> else r)
            (filter (\<lambda>m. \<not> (message_id m = message_id M \<and> sender_id m = a)) rows))"
proof -
  have sp: "\<And>m. messages_sender_policy (Some a) m = (sender_id m = a)"
    by (auto simp: messages_sender_policy_def)
  have "M \<in> set (filter (\<lambda>m. message_id m = message_id M \<and> sender_id m = a) rows)"
    using assms(2,3) by simp
  then have ne: "filter (\<lambda>m. message_id m = message_id M \<and> sender_id m = a) rows \<noteq> []"
    by (metis empty_iff empty_set)
  have upd: "update_rows (\<lambda>m. reply_to_id m = Some (message_id M))
          (\<lambda>m. messages_before_update now (m\<lparr>reply_to_id := None\<rparr>))
          (filter (\<lambda>m. \<not> (message_id m = message_id M \<and> sender_id m = a)) rows) =
        Inr (map (\<lambda>r. if reply_to_id r = Some (message_id M)
                       then r\<lparr>reply_to_id := None, updated_at := now\<rparr> else r)
               (filter (\<lambda>m. \<not> (message_id m = message_id M \<and> sender_id m = a)) rows))"
    using assms(1) by (intro update_rows_total) (simp add: validate_ignores_other_columns)
  show ?thesis
    unfolding delete_message_def Let_def sp by (simp only: ne if_False upd)
qed

text \<open>
  C6. Let the table hold rows that pass the content trigger and have distinct ids, let
  \<open>M\<close> be a message of user \<open>a\<close>, and \<open>d\<close> another message that replies to \<open>M\<close>. When
  \<open>a\<close> deletes \<open>M\<close>, the delete succeeds and the handler shows no error; no row with
  \<open>M\<close>'s id and no reference to it remains; \<open>d\<close> is still there, with its
  \<open>reply_to_id\<close> set to \<open>NULL\<close> (and \<open>updated_at\<close> stamped by the trigger) and every other
  column as before. A later fetch of \<open>d\<close>'s thread, whatever sort the server performs,
  delivers a list that contains \<open>d\<close> with no reply preview.
\<close>

theorem delete_keeps_replies_with_void_reference:
  assumes "\<forall>x \<in> set (messages db). validate_message_content x = Inr x"
    and "distinct (map message_id (messages db))"
    and "M \<in> set (messages db)" and "sender_id M = a"
    and "d \<in> set (messages db)" and "reply_to_id d = Some (message_id M)"
    and "message_id d \<noteq> message_id M"
  shows "\<exists>rows'.
     handleDeleteMessage (Some a) now (message_id M) st (messages db) = (st, rows') \<and>
     (\<forall>x \<in> set rows'. message_id x \<noteq> message_id M \<and> reply_to_id x \<noteq> Some (message_id M)) \<and>
     d\<lparr>reply_to_id := None, updated_at := now\<rparr> \<in> set rows' \<and>
     (\<forall>ord u c prof. orders_by_created_at ord \<and> thread_filter u (contact_user_id c) d \<longrightarrow>
        (\<exists>ms. fetchMessages ord (Some u) prof (Some c) (db\<lparr>messages := rows'\<rparr>) = Some ms \<and>
              \<lparr>row = d\<lparr>reply_to_id := None, updated_at := now\<rparr>, reply_to = None\<rparr> \<in> set ms))"
proof -
  let ?mid = "message_id M"
  let ?void = "\<lambda>r. if reply_to_id r = Some ?mid
                    then r\<lparr>reply_to_id := None, updated_at := now\<rparr> else r"
  let ?kept = "filter (\<lambda>m. \<not> (message_id m = ?mid \<and> sender_id m = a)) (messages db)"
  let ?rows' = "map ?void ?kept"
  let ?d' = "d\<lparr>reply_to_id := None, updated_at := now\<rparr>"
  have del: "delete_message (Some a) now ?mid (messages db) = Inr ?rows'"
    using assms(1,3,4) by (rule delete_message_rows)
  have only: "\<And>x. x \<in> set (messages db) \<Longrightarrow> message_id x = ?mid \<Longrightarrow> x = M"
    using assms(2,3) by (meson distinct_map inj_onD)
  have kept_ids: "\<forall>x \<in> set ?kept. message_id x \<noteq> ?mid"
    using only assms(4) by auto
  have gone: "\<forall>x \<in> set ?rows'. message_id x \<noteq> ?mid \<and> reply_to_id x \<noteq> Some ?mid"
    using kept_ids by auto
  have "d \<in> set ?kept" using assms(5,7) by simp
  then have "?void d \<in> set ?rows'" by (rule imageI [of d "set ?kept" ?void, folded set_map])
  then have there: "?d' \<in> set ?rows'" using assms(6) by simp
  have fetch: "\<forall>ord u c prof. orders_by_created_at ord \<and> thread_filter u (contact_user_id c) d \<longrightarrow>
        (\<exists>ms. fetchMessages ord (Some u) prof (Some c) (db\<lparr>messages := ?rows'\<rparr>) = Some ms \<and>
              \<lparr>row = ?d', reply_to = None\<rparr> \<in> set ms)"
  proof (intro allI impI)
    fix ord :: "message_row list \<Rightarrow> message_row list"
      and u :: uuid and c :: contact and prof :: "profile_row option"
    assume h: "orders_by_created_at ord \<and> thread_filter u (contact_user_id c) d"
    then have tf: "thread_filter u (contact_user_id c) ?d'" by (simp add: thread_filter_def)
    have "\<exists>ms. fetchMessages ord (Some u) prof (Some c) (db\<lparr>messages := ?rows'\<rparr>) = Some ms \<and>
            resolve_reply u prof c (messages (db\<lparr>messages := ?rows'\<rparr>)) ?d' \<in> set ms"
      by (rule fetchMessages_member) (use h there tf in simp_all)
    moreover have "\<And>rows. resolve_reply u prof c rows ?d' = \<lparr>row = ?d', reply_to = None\<rparr>"
      by (simp add: resolve_reply_def)
    ultimately show "\<exists>ms. fetchMessages ord (Some u) prof (Some c) (db\<lparr>messages := ?rows'\<rparr>) = Some ms \<and>
              \<lparr>row = ?d', reply_to = None\<rparr> \<in> set ms"
      by simp
  qed
  have "handleDeleteMessage (Some a) now ?mid st (messages db) = (st, ?rows')"
    using del by (simp add: handleDeleteMessage_def)
  then show ?thesis using gone there fetch by blast
qed


theorem delete_keeps_replies_with_void_reference_witness:
  "\<exists>ms. handleDeleteMessage (Some 1) 5000 (message_id hello) fresh_view [hello, answer] =
          (fresh_view, [answer\<lparr>reply_to_id := None, updated_at := 5000\<rparr>]) \<and>
        fetchMessages scan_order_sort (Some 2) (Some bob) (Some ann_contact)
          (people\<lparr>messages := [answer\<lparr>reply_to_id := None, updated_at := 5000\<rparr>]\<rparr>) = Some ms \<and>
        \<lparr>row = answer\<lparr>reply_to_id := None, updated_at := 5000\<rparr>, reply_to = None\<rparr> \<in> set ms"
proof -
  let ?db = "people\<lparr>messages := [hello, answer]\<rparr>"
  let ?a' = "answer\<lparr>reply_to_id := None, updated_at := 5000\<rparr>"
  have 1: "\<forall>x \<in> set (messages ?db). validate_message_content x = Inr x"
    by (simp add: validate_message_content_def pg_trim_def hello_def answer_def)
  have 2: "distinct (map message_id (messages ?db))" by (simp add: hello_def answer_def)
  have 3: "hello \<in> set (messages ?db)" "answer \<in> set (messages ?db)" by simp_all
  have 4: "sender_id hello = 1" "reply_to_id answer = Some (message_id hello)"
    "message_id answer \<noteq> message_id hello"
    by (simp_all add: hello_def answer_def)
  have 5: "thread_filter 2 (contact_user_id ann_contact) answer"
    by (simp add: thread_filter_def ann_contact_def answer_def)
  obtain rows' where
    r: "handleDeleteMessage (Some 1) 5000 (message_id hello) fresh_view (messages ?db) =
          (fresh_view, rows')"
    and f: "\<forall>ord u c prof. orders_by_created_at ord \<and> thread_filter u (contact_user_id c) answer \<longrightarrow>
        (\<exists>ms. fetchMessages ord (Some u) prof (Some c) (?db\<lparr>messages := rows'\<rparr>) = Some ms \<and>
              \<lparr>row = ?a', reply_to = None\<rparr> \<in> set ms)"
    using delete_keeps_replies_with_void_reference
            [OF 1 2 3(1) 4(1) 3(2) 4(2) 4(3), of 5000 fresh_view] by blast
  have ev: "handleDeleteMessage (Some 1) 5000 (message_id hello) fresh_view [hello, answer] =
              (fresh_view, [?a'])"
    by (simp add: handleDeleteMessage_def delete_message_def messages_sender_policy_def
          messages_before_update_def update_updated_at_column_def validate_message_content_def
          pg_trim_def hello_def answer_def)
  from r ev have "rows' = [?a']" by simp
  with f 5 scan_order_sort_orders
  have "\<exists>ms. fetchMessages scan_order_sort (Some 2) (Some bob) (Some ann_contact)
          (?db\<lparr>messages := [?a']\<rparr>) = Some ms \<and> \<lparr>row = ?a', reply_to = None\<rparr> \<in> set ms"
    by blast
  then show ?thesis using ev by simp
qed

section \<open>Editing a message\<close>

lemma pg_trim_empty_iff: "pg_trim w = [] \<longleftrightarrow> (\<forall>x \<in> set w. x = CHR 0x20)"
proof -
  let ?sp = "\<lambda>c. c = CHR 0x20"
  have "pg_trim w = [] \<longleftrightarrow> (\<forall>x \<in> set (dropWhile ?sp w). x = CHR 0x20)"
    by (simp add: pg_trim_def dropWhile_eq_Nil_conv)
  also have "\<dots> \<longleftrightarrow> dropWhile ?sp w = []"
  proof
    assume a: "\<forall>x \<in> set (dropWhile ?sp w). x = CHR 0x20"
    show "dropWhile ?sp w = []"
    proof (rule ccontr)
      assume n: "dropWhile ?sp w \<noteq> []"
      then have "\<not> ?sp (hd (dropWhile ?sp w))" by (rule hd_dropWhile)
      moreover have "hd (dropWhile ?sp w) \<in> set (dropWhile ?sp w)" using n by simp
      ultimately show False using a by blast
    qed
  qed (simp del: dropWhile_eq_Nil_conv)
  also have "\<dots> \<longleftrightarrow> (\<forall>x \<in> set w. x = CHR 0x20)"
    by (simp add: dropWhile_eq_Nil_conv)
  finally show ?thesis .
qed

lemma trim_has_visible_char:
  assumes "trim s \<noteq> []"
  shows "\<exists>x \<in> set (trim s). \<not> is_ws x"
proof -
  let ?y = "rev (dropWhile is_ws s)"
  have n: "dropWhile is_ws ?y \<noteq> []" using assms by (simp add: trim_def)
  then have "\<not> is_ws (hd (dropWhile is_ws ?y))" by (rule hd_dropWhile)
  moreover have "hd (dropWhile is_ws ?y) \<in> set (trim s)" using n by (simp add: trim_def)
  ultimately show ?thesis by blast
qed

lemma trimmed_content_passes_pg_trim: "trim s \<noteq> [] \<Longrightarrow> pg_trim (trim s) \<noteq> []"
proof -
  assume "trim s \<noteq> []"
  then obtain x where "x \<in> set (trim s)" "\<not> is_ws x" using trim_has_visible_char by blast
  moreover have "is_ws (CHR 0x20)" by (simp add: is_ws_def)
  ultimately have "\<not> (\<forall>x \<in> set (trim s). x = CHR 0x20)" by metis
  then show ?thesis by (simp add: pg_trim_empty_iff)
qed

lemma update_message_rows:
  assumes "trim e \<noteq> []" and "length (trim e) \<le> 10000"
  shows "update_message (Some a) now mid (trim e) rows =
     Inr (map (\<lambda>r. if message_id r = mid \<and> sender_id r = a
                    then r\<lparr>content := trim e, is_edited := True, updated_at := now\<rparr> else r) rows)"
proof -
  have sp: "\<And>m. messages_sender_policy (Some a) m = (sender_id m = a)"
    by (auto simp: messages_sender_policy_def)
  have ok: "\<And>m. messages_before_update now (m\<lparr>content := trim e, is_edited := True\<rparr>) =
              Inr (m\<lparr>content := trim e, is_edited := True, updated_at := now\<rparr>)"
    using assms trimmed_content_passes_pg_trim [of e]
    by (simp add: messages_before_update_def update_updated_at_column_def
          validate_message_content_def)
  show ?thesis
    unfolding update_message_def sp by (intro update_rows_total) (simp add: ok)
qed

lemma update_rows_rejected:
  "r \<in> set rs \<Longrightarrow> sel r \<Longrightarrow> (\<forall>x \<in> set rs. sel x \<longrightarrow> f x = Inl e) \<Longrightarrow>
   update_rows sel f rs = Inl e"
proof (induction rs)
  case Nil
  then show ?case by simp
next
  case (Cons x xs)
  show ?case
  proof (cases "sel x")
    case True
    then have "f x = Inl e" using Cons.prems(3) by simp
    then show ?thesis using True by simp
  next
    case False
    then have "r \<in> set xs" using Cons.prems(1,2) by auto
    then have "update_rows sel f xs = Inl e" using Cons.IH Cons.prems(2,3) by simp
    then show ?thesis using False by simp
  qed
qed

lemma update_message_overlong:
  assumes "trim e \<noteq> []" and "length (trim e) > 10000"
    and "m \<in> set rows" and "message_id m = mid" and "sender_id m = a"
  shows "update_message (Some a) now mid (trim e) rows =
     Inl (Raise_exception ''Message content exceeds maximum length of 10000 characters'' [])"
proof -
  have bad: "\<And>x. messages_before_update now (x\<lparr>content := trim e, is_edited := True\<rparr>) =
     Inl (Raise_exception ''Message content exceeds maximum length of 10000 characters'' [])"
    using assms(2) trimmed_content_passes_pg_trim [OF assms(1)]
    by (simp add: messages_before_update_def update_updated_at_column_def
          validate_message_content_def)
  have sel: "message_id m = mid \<and> messages_sender_policy (Some a) m"
    using assms(4,5) by (simp add: messages_sender_policy_def)
  show ?thesis
    unfolding update_message_def
    by (rule update_rows_rejected
          [where r = m and sel = "\<lambda>m. message_id m = mid \<and> messages_sender_policy (Some a) m"])
       (use assms(3) sel in \<open>simp_all add: bad\<close>)
qed

text \<open>
  C9, amended. Let the sender \<open>a\<close> of a stored message \<open>m\<close> edit it, with new content
  that is non-empty after trimming. When the trimmed content is at most 10000
  characters long, the edit succeeds without an error notice; the row of \<open>m\<close> now has
  the trimmed content, the edited flag set and \<open>updated_at\<close> equal to the time of the
  update; its id, sender, receiver, reply reference and creation time are as before;
  rows with another id or another sender are untouched. When the trimmed content is
  longer than 10000 characters, the content trigger rejects the update: the handler
  shows the error notice and leaves the editor open, and no row changes.
\<close>

theorem edit_changes_content_flag_and_updated_at_only:
  assumes "m \<in> set rows" and "sender_id m = a"
    and "editingMessage st = Some em" and "message_id (row em) = message_id m"
    and "trim (editContent st) \<noteq> []"
  shows
   "(length (trim (editContent st)) \<le> 10000 \<longrightarrow>
      (\<exists>rows' m'.
         handleEditMessage (Some a) now st rows =
           (st\<lparr>editingMessage := None, editContent := []\<rparr>, rows') \<and>
         rows' = map (\<lambda>r. if message_id r = message_id m \<and> sender_id r = a
                           then r\<lparr>content := trim (editContent st), is_edited := True,
                                  updated_at := now\<rparr> else r) rows \<and>
         m' \<in> set rows' \<and>
         content m' = trim (editContent st) \<and> is_edited m' \<and> updated_at m' = now \<and>
         message_id m' = message_id m \<and> sender_id m' = sender_id m \<and>
         receiver_id m' = receiver_id m \<and> reply_to_id m' = reply_to_id m \<and>
         created_at m' = created_at m)) \<and>
    (length (trim (editContent st)) > 10000 \<longrightarrow>
       handleEditMessage (Some a) now st rows =
         (st\<lparr>toasts := toasts st @ [\<lparr>title = ''Error'', description = ''Failed to edit message.'',
                                      destructive = True\<rparr>]\<rparr>, rows))"
proof (intro conjI impI)
  assume le: "length (trim (editContent st)) \<le> 10000"
  let ?c = "trim (editContent st)"
  let ?g = "\<lambda>r. if message_id r = message_id m \<and> sender_id r = a
                 then r\<lparr>content := ?c, is_edited := True, updated_at := now\<rparr> else r"
  let ?m' = "m\<lparr>content := ?c, is_edited := True, updated_at := now\<rparr>"
  have "update_message (Some a) now (message_id m) ?c rows = Inr (map ?g rows)"
    using assms(5) le by (rule update_message_rows)
  then have h: "handleEditMessage (Some a) now st rows =
                  (st\<lparr>editingMessage := None, editContent := []\<rparr>, map ?g rows)"
    using assms(3,4,5) by (simp add: handleEditMessage_def)
  have "?g m \<in> set (map ?g rows)" using assms(1) by (simp del: map_eq_conv)
  then have "?m' \<in> set (map ?g rows)" using assms(2) by simp
  then show "\<exists>rows' m'.
         handleEditMessage (Some a) now st rows =
           (st\<lparr>editingMessage := None, editContent := []\<rparr>, rows') \<and>
         rows' = map (\<lambda>r. if message_id r = message_id m \<and> sender_id r = a
                           then r\<lparr>content := trim (editContent st), is_edited := True,
                                  updated_at := now\<rparr> else r) rows \<and>
         m' \<in> set rows' \<and>
         content m' = trim (editContent st) \<and> is_edited m' \<and> updated_at m' = now \<and>
         message_id m' = message_id m \<and> sender_id m' = sender_id m \<and>
         receiver_id m' = receiver_id m \<and> reply_to_id m' = reply_to_id m \<and>
         created_at m' = created_at m"
    using h by (intro exI [of _ "map ?g rows"] exI [of _ ?m']) simp
next
  assume gt: "length (trim (editContent st)) > 10000"
  have "update_message (Some a) now (message_id m) (trim (editContent st)) rows =
     Inl (Raise_exception ''Message content exceeds maximum length of 10000 characters'' [])"
    using assms(5) gt assms(1) refl assms(2) by (rule update_message_overlong)
  then show "handleEditMessage (Some a) now st rows =
         (st\<lparr>toasts := toasts st @ [\<lparr>title = ''Error'', description = ''Failed to edit message.'',
                                      destructive = True\<rparr>]\<rparr>, rows)"
    using assms(3,4,5) by (simp add: handleEditMessage_def)
qed

theorem edit_changes_content_flag_and_updated_at_only_witness:
  "handleEditMessage (Some 1) 7000
     (fresh_view\<lparr>editingMessage := Some \<lparr>row = hello, reply_to = None\<rparr>,
                 editContent := ''  hello! ''\<rparr>) [hello, answer] =
     (fresh_view\<lparr>editingMessage := None, editContent := []\<rparr>,
      [hello\<lparr>content := ''hello!'', is_edited := True, updated_at := 7000\<rparr>, answer]) \<and>
   created_at (hello\<lparr>content := ''hello!'', is_edited := True, updated_at := 7000\<rparr>) =
     created_at hello \<and>
   handleEditMessage (Some 1) 7000
     (fresh_view\<lparr>editingMessage := Some \<lparr>row = hello, reply_to = None\<rparr>,
                 editContent := replicate 10002 (CHR ''b'')\<rparr>) [hello, answer] =
     (fresh_view\<lparr>editingMessage := Some \<lparr>row = hello, reply_to = None\<rparr>,
                 editContent := replicate 10002 (CHR ''b''),
                 toasts := toasts (fresh_view\<lparr>editingMessage := Some \<lparr>row = hello, reply_to = None\<rparr>,
                                     editContent := replicate 10002 (CHR ''b'')\<rparr>) @
                   [\<lparr>title = ''Error'', description = ''Failed to edit message.'',
                     destructive = True\<rparr>]\<rparr>,
      [hello, answer])"
proof -
  let ?st = "fresh_view\<lparr>editingMessage := Some \<lparr>row = hello, reply_to = None\<rparr>,
                        editContent := ''  hello! ''\<rparr>"
  let ?long = "fresh_view\<lparr>editingMessage := Some \<lparr>row = hello, reply_to = None\<rparr>,
                        editContent := replicate 10002 (CHR ''b'')\<rparr>"
  have t: "trim (editContent ?st) = ''hello!''" by (simp add: trim_def is_ws_def)
  have tl: "trim (editContent ?long) = replicate 10002 (CHR ''b'')"
    by (simp add: trim_def is_ws_def)
  have 1: "hello \<in> set [hello, answer]" "sender_id hello = 1" by (simp_all add: hello_def)
  have 2: "editingMessage ?st = Some \<lparr>row = hello, reply_to = None\<rparr>"
    "message_id (row \<lparr>row = hello, reply_to = None\<rparr>) = message_id hello" by simp_all
  have e2: "editingMessage ?long = Some \<lparr>row = hello, reply_to = None\<rparr>" by simp
  have 3: "trim (editContent ?st) \<noteq> []" "length (trim (editContent ?st)) \<le> 10000"
    by (simp_all only: t) simp_all
  have e3: "trim (editContent ?long) \<noteq> []" "length (trim (editContent ?long)) > 10000"
    by (simp_all only: tl) simp_all
  note short = edit_changes_content_flag_and_updated_at_only [OF 1 2 3(1), of 7000, THEN conjunct1]
  note long = edit_changes_content_flag_and_updated_at_only [OF 1 e2 2(2) e3(1), of 7000, THEN conjunct2]
  obtain rows' where
    h: "handleEditMessage (Some 1) 7000 ?st [hello, answer] =
          (?st\<lparr>editingMessage := None, editContent := []\<rparr>, rows')"
    and r: "rows' = map (\<lambda>r. if message_id r = message_id hello \<and> sender_id r = 1
                       then r\<lparr>content := trim (editContent ?st), is_edited := True,
                              updated_at := 7000\<rparr> else r) [hello, answer]"
    using short 3(2) by blast
  have "rows' = [hello\<lparr>content := ''hello!'', is_edited := True, updated_at := 7000\<rparr>, answer]"
    unfolding r t by (simp add: hello_def answer_def)
  then have a: "handleEditMessage (Some 1) 7000 ?st [hello, answer] =
     (fresh_view\<lparr>editingMessage := None, editContent := []\<rparr>,
      [hello\<lparr>content := ''hello!'', is_edited := True, updated_at := 7000\<rparr>, answer])"
    using h by simp
  have b: "handleEditMessage (Some 1) 7000 ?long [hello, answer] =
     (?long\<lparr>toasts := toasts ?long @ [\<lparr>title = ''Error'', description = ''Failed to edit message.'',
                                        destructive = True\<rparr>]\<rparr>, [hello, answer])"
    using long e3(2) by (rule mp)
  have c: "created_at (hello\<lparr>content := ''hello!'', is_edited := True, updated_at := 7000\<rparr>) =
     created_at hello" by simp
  show ?thesis using a b c by simp
qed

text \<open>
  The claim as written fails for content that the storage trigger rejects: Ann's edit of
  \<open>hello\<close> to 10001 letters is non-empty, yet the update raises, the handler shows the
  error notice, and the row keeps its content.
\<close>

theorem edit_overlong_content_counterexample:
  "sender_id hello = 1 \<and> trim (replicate 10001 (CHR ''a'')) \<noteq> [] \<and>
   handleEditMessage (Some 1) 7000
     (fresh_view\<lparr>editingMessage := Some \<lparr>row = hello, reply_to = None\<rparr>,
                 editContent := replicate 10001 (CHR ''a'')\<rparr>) [hello] =
     (fresh_view\<lparr>editingMessage := Some \<lparr>row = hello, reply_to = None\<rparr>,
                 editContent := replicate 10001 (CHR ''a''),
                 toasts := [\<lparr>title = ''Error'', description = ''Failed to edit message.'',
                             destructive = True\<rparr>]\<rparr>,
      [hello])"
proof -
  have t: "trim (replicate 10001 (CHR ''a'')) = replicate 10001 (CHR ''a'')"
    by (simp add: trim_def is_ws_def)
  have p: "pg_trim (replicate 10001 (CHR ''a'')) = replicate 10001 (CHR ''a'')"
    by (simp add: pg_trim_def)
  have "update_message (Some 1) 7000 (message_id hello) (replicate 10001 (CHR ''a'')) [hello] =
          Inl (Raise_exception ''Message content exceeds maximum length of 10000 characters'' [])"
    by (simp add: update_message_def messages_sender_policy_def messages_before_update_def
          update_updated_at_column_def validate_message_content_def p hello_def)
  then show ?thesis
    by (simp add: handleEditMessage_def t fresh_view_def) (simp add: hello_def)
qed

section \<open>The send cooldown\<close>

lemma handleSendMessage_begin_now:
  "handleSendMessage_begin user contact now st = Some rq \<Longrightarrow> ins_now rq = now"
  by (auto simp: handleSendMessage_begin_def split: option.splits if_splits)

lemma handleSendMessage_begin_cooldown:
  "now - lastMessageTime st < MESSAGE_COOLDOWN \<Longrightarrow>
   handleSendMessage_begin user contact now st = None"
  by (simp add: handleSendMessage_begin_def split: option.splits)

text \<open>
  When a send has been answered and accepted before the next one is pressed, the
  cooldown works: whatever the user has typed meanwhile, a press less than
  \<open>MESSAGE_COOLDOWN\<close> after the accepted send issues no insert and changes nothing.
\<close>

lemma accepted_send_starts_cooldown:
  assumes "in_flight s = []"
    and "handleSendMessage user contact now t new_id s = s1" and "table s1 \<noteq> table s"
    and "now2 - now < MESSAGE_COOLDOWN"
  shows "lastMessageTime (view s1) = now \<and> in_flight s1 = [] \<and>
         step user contact (step user contact s1 (Typing txt)) (Send_pressed now2) =
           step user contact s1 (Typing txt)"
proof (cases "handleSendMessage_begin user contact now (view s)")
  case None
  then have "s1 = s" using assms(1,2) by (simp add: handleSendMessage_def run_def)
  then show ?thesis using assms(3) by simp
next
  case (Some rq)
  have n: "ins_now rq = now" using Some by (rule handleSendMessage_begin_now)
  show ?thesis
  proof (cases "insert_message user t new_id rq (table s)")
    case (Inl e)
    then have "table s1 = table s"
      using assms(1,2) Some by (auto simp: handleSendMessage_def run_def)
    then show ?thesis using assms(3) by simp
  next
    case (Inr rows')
    then have s1: "s1 = s\<lparr>view := handleSendMessage_resume rq False (view s), in_flight := [],
                           table := rows'\<rparr>"
      using assms(1,2) Some by (auto simp: handleSendMessage_def run_def)
    have l: "lastMessageTime (view s1) = now"
      by (simp add: s1 handleSendMessage_resume_def n)
    have "now2 - lastMessageTime (view (step user contact s1 (Typing txt))) < MESSAGE_COOLDOWN"
      using l assms(4) by simp
    then have "handleSendMessage_begin user contact now2 (view (step user contact s1 (Typing txt))) = None"
      by (rule handleSendMessage_begin_cooldown)
    then show ?thesis using l s1 by simp
  qed
qed

text \<open>
  C3. Two presses 100 ms apart, the second made before the store has answered the first:
  \<open>lastMessageTime\<close> is written only after the \<open>await\<close>, so both presses pass the
  cooldown, both inserts are issued, and the table ends with two messages.
\<close>

theorem overlapping_sends_both_persisted:
  "1000100 - 1000000 < MESSAGE_COOLDOWN \<and>
   table (run (Some 1) (Some bob_contact)
            \<lparr>view = fresh_view\<lparr>newMessage := ''hi''\<rparr>, in_flight = [], table = []\<rparr>
            [Send_pressed 1000000, Send_pressed 1000100,
             Insert_answered 900 41, Insert_answered 901 42]) =
     [\<lparr>message_id = 41, sender_id = 1, receiver_id = 2, content = ''hi'', reply_to_id = None,
       is_edited = False, created_at = 900, updated_at = 900\<rparr>,
      \<lparr>message_id = 42, sender_id = 1, receiver_id = 2, content = ''hi'', reply_to_id = None,
       is_edited = False, created_at = 901, updated_at = 901\<rparr>] \<and>
   toasts (view (run (Some 1) (Some bob_contact)
            \<lparr>view = fresh_view\<lparr>newMessage := ''hi''\<rparr>, in_flight = [], table = []\<rparr>
            [Send_pressed 1000000, Send_pressed 1000100,
             Insert_answered 900 41, Insert_answered 901 42])) = []"
  by (simp add: run_def handleSendMessage_begin_def handleSendMessage_resume_def
        insert_message_def validate_message_content_def messages_sender_policy_def
        pg_trim_def trim_def is_ws_def MESSAGE_COOLDOWN_def fresh_view_def bob_contact_def)

lemma answered_send_then_press_persists_one:
  "table (run (Some 1) (Some bob_contact)
            \<lparr>view = fresh_view\<lparr>newMessage := ''hi''\<rparr>, in_flight = [], table = []\<rparr>
            [Send_pressed 1000000, Insert_answered 900 41, Typing ''hi'',
             Send_pressed 1000100, Insert_answered 901 42]) =
     [\<lparr>message_id = 41, sender_id = 1, receiver_id = 2, content = ''hi'', reply_to_id = None,
       is_edited = False, created_at = 900, updated_at = 900\<rparr>]"
  by (simp add: run_def handleSendMessage_begin_def handleSendMessage_resume_def
        insert_message_def validate_message_content_def messages_sender_policy_def
        pg_trim_def trim_def is_ws_def MESSAGE_COOLDOWN_def fresh_view_def bob_contact_def)

section \<open>Adding a contact\<close>

lemma lookup_own_handle:
  assumes "distinct (map uid (profiles db))" and "p \<in> set (profiles db)" and "length (uid p) = 8"
  shows "lookup_profile_by_uid (Some (uid p)) db = [(user_id p, name p)]"
  using assms(3) filter_key_unique [OF assms(1,2)] by (simp add: lookup_profile_by_uid_def)

lemma insert_contact_result:
  "insert_contact (Some u) now new_id u cu edges = Inr edges' \<Longrightarrow>
   edges' = edges @ [\<lparr>edge_id = new_id, edge_user_id = u, edge_contact_user_id = cu,
                      edge_created_at = now\<rparr>]"
  by (auto simp: insert_contact_def Let_def split: if_splits)

lemma handleAddContact_malformed:
  assumes "trim (searchUid st) \<noteq> []" and "length (trim (searchUid st)) \<noteq> 8"
  shows "handleAddContact (Some u) now new_id st db =
     (notify \<lparr>title = ''Invalid UID'', description = ''UID must be exactly 8 characters.'',
              destructive = True\<rparr> st, db)"
  using assms by (simp add: handleAddContact_def Let_def)

lemma handleAddContact_not_found:
  assumes "trim (searchUid st) \<noteq> []" and "length (trim (searchUid st)) = 8"
    and "lookup_profile_by_uid (Some (trim (searchUid st))) db = []"
  shows "handleAddContact (Some u) now new_id st db =
     ((notify \<lparr>title = ''User not found'', description = ''No user exists with that UID.'',
               destructive = True\<rparr> st)\<lparr>loading := False\<rparr>, db)"
  using assms by (simp add: handleAddContact_def Let_def)

lemma handleAddContact_self:
  assumes "trim (searchUid st) \<noteq> []" and "length (trim (searchUid st)) = 8"
    and "lookup_profile_by_uid (Some (trim (searchUid st))) db = fp # rest" and "fst fp = u"
  shows "handleAddContact (Some u) now new_id st db =
     ((notify \<lparr>title = ''Invalid UID'', description = ''You can't add yourself as a contact.'',
               destructive = True\<rparr> st)\<lparr>loading := False\<rparr>, db)"
  using assms by (simp add: handleAddContact_def Let_def)

lemma handleAddContact_listed:
  assumes "trim (searchUid st) \<noteq> []" and "length (trim (searchUid st)) = 8"
    and "lookup_profile_by_uid (Some (trim (searchUid st))) db = fp # rest" and "fst fp \<noteq> u"
    and "find (\<lambda>c. contact_user_id c = fst fp) (contacts_state st) \<noteq> None"
  shows "handleAddContact (Some u) now new_id st db =
     ((notify \<lparr>title = ''Already added'', description = ''This user is already in your contacts.'',
               destructive = True\<rparr> st)\<lparr>loading := False\<rparr>, db)"
  using assms by (simp add: handleAddContact_def Let_def)

lemma handleAddContact_insert:
  assumes "trim (searchUid st) \<noteq> []" and "length (trim (searchUid st)) = 8"
    and "lookup_profile_by_uid (Some (trim (searchUid st))) db = fp # rest" and "fst fp \<noteq> u"
    and "find (\<lambda>c. contact_user_id c = fst fp) (contacts_state st) = None"
  shows "handleAddContact (Some u) now new_id st db =
     (case insert_contact (Some u) now new_id u (fst fp) (contacts db) of
        Inl e \<Rightarrow>
          ((notify \<lparr>title = ''Error'', description = ''Failed to add contact.'',
                    destructive = True\<rparr> st)\<lparr>loading := False\<rparr>, db)
      | Inr edges' \<Rightarrow>
          ((fetchContacts (Some u) (db\<lparr>contacts := edges'\<rparr>)
              (notify \<lparr>title = ''Contact added'',
                       description = snd fp @ '' has been added to your contacts.'',
                       destructive = False\<rparr>
                 (st\<lparr>searchUid := [], addDialogOpen := False\<rparr>)))\<lparr>loading := False\<rparr>,
           db\<lparr>contacts := edges'\<rparr>))"
  using assms by (simp add: handleAddContact_def Let_def split: sum.splits)

lemma handleAddContact_store:
  "snd (handleAddContact user now new_id st db) = db \<or>
   (\<exists>u fp rest. user = Some u \<and> trim (searchUid st) \<noteq> [] \<and> length (trim (searchUid st)) = 8 \<and>
      lookup_profile_by_uid (Some (trim (searchUid st))) db = fp # rest \<and> fst fp \<noteq> u \<and>
      find (\<lambda>c. contact_user_id c = fst fp) (contacts_state st) = None \<and>
      snd (handleAddContact user now new_id st db) =
        db\<lparr>contacts := contacts db @ [\<lparr>edge_id = new_id, edge_user_id = u,
                                          edge_contact_user_id = fst fp,
                                          edge_created_at = now\<rparr>]\<rparr>)"
proof (cases user)
  case None
  then show ?thesis by (simp add: handleAddContact_def)
next
  case (Some u)
  show ?thesis
  proof (cases "trim (searchUid st) = [] \<or> length (trim (searchUid st)) \<noteq> 8")
    case True
    then show ?thesis using Some by (auto simp: handleAddContact_def Let_def)
  next
    case False
    then have f: "trim (searchUid st) \<noteq> []" "length (trim (searchUid st)) = 8" by simp_all
    show ?thesis
    proof (cases "lookup_profile_by_uid (Some (trim (searchUid st))) db")
      case Nil
      then show ?thesis using Some handleAddContact_not_found [OF f] by simp
    next
      case (Cons fp rest)
      show ?thesis
      proof (cases "fst fp = u")
        case True
        then show ?thesis using Some handleAddContact_self [OF f Cons] by simp
      next
        case nself: False
        show ?thesis
        proof (cases "find (\<lambda>c. contact_user_id c = fst fp) (contacts_state st) = None")
          case False
          then show ?thesis using Some handleAddContact_listed [OF f Cons nself] by simp
        next
          case True
          note ins = handleAddContact_insert [OF f Cons nself True, of now new_id]
          show ?thesis
          proof (cases "insert_contact (Some u) now new_id u (fst fp) (contacts db)")
            case (Inl e)
            then show ?thesis using Some ins by simp
          next
            case (Inr edges')
            then have "edges' = contacts db @ [\<lparr>edge_id = new_id, edge_user_id = u,
                          edge_contact_user_id = fst fp, edge_created_at = now\<rparr>]"
              by (rule insert_contact_result)
            then show ?thesis using Some ins Inr f Cons nself True by simp
          qed
        qed
      qed
    qed
  qed
qed

lemma insert_contact_duplicate:
  "(u, cu) \<in> set (map (\<lambda>e. (edge_user_id e, edge_contact_user_id e)) edges) \<Longrightarrow>
   \<exists>e. insert_contact (Some u) now new_id u cu edges = Inl e"
  by (simp add: insert_contact_def Let_def contacts_policy_def)

lemma insert_contact_fresh:
  "(u, cu) \<notin> set (map (\<lambda>e. (edge_user_id e, edge_contact_user_id e)) edges) \<Longrightarrow>
   new_id \<notin> set (map edge_id edges) \<Longrightarrow>
   insert_contact (Some u) now new_id u cu edges =
     Inr (edges @ [\<lparr>edge_id = new_id, edge_user_id = u, edge_contact_user_id = cu,
                      edge_created_at = now\<rparr>])"
  by (simp add: insert_contact_def Let_def contacts_policy_def)

lemma notices_fetchContacts: "notices (fetchContacts user db st) = notices st"
  by (simp add: fetchContacts_def Let_def split: option.splits)

text \<open>
  C7, amended. Once the handle field holds something, \<open>handleAddContact\<close> runs four
  checks in order, each with a notice of its own, and each ends the handler with the
  store untouched: a trimmed handle that is not 8 characters long; a handle that no
  profile carries; a handle that resolves to the user; a handle that resolves to a user
  in the contact list loaded in the component. Only when all four checks pass is the
  insert attempted. When the store already holds the edge, the uniqueness constraint
  rejects the insert, the store stays as it is and a fifth notice, \<open>Failed to add
  contact\<close>, is shown; when it does not (and the new row's id is fresh), exactly the new
  edge is appended and the success notice is shown. The contacts table changes in no
  other case. The five error notices are pairwise different. The user's own handle, when
  it is 8 characters long and unique among the profiles, always ends in the
  self-reference notice, whatever the store and the loaded list hold otherwise.
\<close>

theorem handleAddContact_four_checks:
  assumes "trim (searchUid st) \<noteq> []"
  shows
   "(length (trim (searchUid st)) \<noteq> 8 \<longrightarrow>
       handleAddContact (Some u) now new_id st db =
         (notify \<lparr>title = ''Invalid UID'', description = ''UID must be exactly 8 characters.'',
                  destructive = True\<rparr> st, db)) \<and>
    (length (trim (searchUid st)) = 8 \<and>
     lookup_profile_by_uid (Some (trim (searchUid st))) db = [] \<longrightarrow>
       handleAddContact (Some u) now new_id st db =
         ((notify \<lparr>title = ''User not found'', description = ''No user exists with that UID.'',
                   destructive = True\<rparr> st)\<lparr>loading := False\<rparr>, db)) \<and>
    (length (trim (searchUid st)) = 8 \<and>
     lookup_profile_by_uid (Some (trim (searchUid st))) db = fp # rest \<and> fst fp = u \<longrightarrow>
       handleAddContact (Some u) now new_id st db =
         ((notify \<lparr>title = ''Invalid UID'', description = ''You can't add yourself as a contact.'',
                   destructive = True\<rparr> st)\<lparr>loading := False\<rparr>, db)) \<and>
    (length (trim (searchUid st)) = 8 \<and>
     lookup_profile_by_uid (Some (trim (searchUid st))) db = fp # rest \<and> fst fp \<noteq> u \<and>
     find (\<lambda>c. contact_user_id c = fst fp) (contacts_state st) \<noteq> None \<longrightarrow>
       handleAddContact (Some u) now new_id st db =
         ((notify \<lparr>title = ''Already added'',
                   description = ''This user is already in your contacts.'',
                   destructive = True\<rparr> st)\<lparr>loading := False\<rparr>, db)) \<and>
    (length (trim (searchUid st)) = 8 \<and>
     lookup_profile_by_uid (Some (trim (searchUid st))) db = fp # rest \<and> fst fp \<noteq> u \<and>
     find (\<lambda>c. contact_user_id c = fst fp) (contacts_state st) = None \<and>
     (u, fst fp) \<in> set (map (\<lambda>e. (edge_user_id e, edge_contact_user_id e)) (contacts db)) \<longrightarrow>
       handleAddContact (Some u) now new_id st db =
         ((notify \<lparr>title = ''Error'', description = ''Failed to add contact.'',
                   destructive = True\<rparr> st)\<lparr>loading := False\<rparr>, db)) \<and>
    (length (trim (searchUid st)) = 8 \<and>
     lookup_profile_by_uid (Some (trim (searchUid st))) db = fp # rest \<and> fst fp \<noteq> u \<and>
     find (\<lambda>c. contact_user_id c = fst fp) (contacts_state st) = None \<and>
     (u, fst fp) \<notin> set (map (\<lambda>e. (edge_user_id e, edge_contact_user_id e)) (contacts db)) \<and>
     new_id \<notin> set (map edge_id (contacts db)) \<longrightarrow>
       snd (handleAddContact (Some u) now new_id st db) =
         db\<lparr>contacts := contacts db @ [\<lparr>edge_id = new_id, edge_user_id = u,
                                           edge_contact_user_id = fst fp,
                                           edge_created_at = now\<rparr>]\<rparr> \<and>
       notices (fst (handleAddContact (Some u) now new_id st db)) =
         notices st @ [\<lparr>title = ''Contact added'',
                        description = snd fp @ '' has been added to your contacts.'',
                        destructive = False\<rparr>]) \<and>
    (contacts (snd (handleAddContact (Some u) now new_id st db)) \<noteq> contacts db \<longrightarrow>
       length (trim (searchUid st)) = 8 \<and>
       (\<exists>fp rest. lookup_profile_by_uid (Some (trim (searchUid st))) db = fp # rest \<and>
          fst fp \<noteq> u \<and>
          find (\<lambda>c. contact_user_id c = fst fp) (contacts_state st) = None \<and>
          snd (handleAddContact (Some u) now new_id st db) =
            db\<lparr>contacts := contacts db @ [\<lparr>edge_id = new_id, edge_user_id = u,
                                              edge_contact_user_id = fst fp,
                                              edge_created_at = now\<rparr>]\<rparr>)) \<and>
    distinct [\<lparr>title = ''Invalid UID'', description = ''UID must be exactly 8 characters.'',
               destructive = True\<rparr>,
              \<lparr>title = ''User not found'', description = ''No user exists with that UID.'',
               destructive = True\<rparr>,
              \<lparr>title = ''Invalid UID'', description = ''You can't add yourself as a contact.'',
               destructive = True\<rparr>,
              \<lparr>title = ''Already added'', description = ''This user is already in your contacts.'',
               destructive = True\<rparr>,
              \<lparr>title = ''Error'', description = ''Failed to add contact.'',
               destructive = True\<rparr>] \<and>
    (distinct (map uid (profiles db)) \<and> p \<in> set (profiles db) \<and> user_id p = u \<and>
     uid p = trim (searchUid st) \<and> length (uid p) = 8 \<longrightarrow>
       handleAddContact (Some u) now new_id st db =
         ((notify \<lparr>title = ''Invalid UID'', description = ''You can't add yourself as a contact.'',
                   destructive = True\<rparr> st)\<lparr>loading := False\<rparr>, db))"
proof (intro conjI impI)
  assume "length (trim (searchUid st)) \<noteq> 8"
  with assms show "handleAddContact (Some u) now new_id st db =
         (notify \<lparr>title = ''Invalid UID'', description = ''UID must be exactly 8 characters.'',
                  destructive = True\<rparr> st, db)"
    by (rule handleAddContact_malformed)
next
  assume "length (trim (searchUid st)) = 8 \<and>
     lookup_profile_by_uid (Some (trim (searchUid st))) db = []"
  with assms show "handleAddContact (Some u) now new_id st db =
         ((notify \<lparr>title = ''User not found'', description = ''No user exists with that UID.'',
                   destructive = True\<rparr> st)\<lparr>loading := False\<rparr>, db)"
    by (simp add: handleAddContact_not_found)
next
  assume "length (trim (searchUid st)) = 8 \<and>
     lookup_profile_by_uid (Some (trim (searchUid st))) db = fp # rest \<and> fst fp = u"
  with assms show "handleAddContact (Some u) now new_id st db =
         ((notify \<lparr>title = ''Invalid UID'', description = ''You can't add yourself as a contact.'',
                   destructive = True\<rparr> st)\<lparr>loading := False\<rparr>, db)"
    by (blast intro: handleAddContact_self)
next
  assume "length (trim (searchUid st)) = 8 \<and>
     lookup_profile_by_uid (Some (trim (searchUid st))) db = fp # rest \<and> fst fp \<noteq> u \<and>
     find (\<lambda>c. contact_user_id c = fst fp) (contacts_state st) \<noteq> None"
  with assms show "handleAddContact (Some u) now new_id st db =
         ((notify \<lparr>title = ''Already added'',
                   description = ''This user is already in your contacts.'',
                   destructive = True\<rparr> st)\<lparr>loading := False\<rparr>, db)"
    by (blast intro: handleAddContact_listed)
next
  assume h: "length (trim (searchUid st)) = 8 \<and>
     lookup_profile_by_uid (Some (trim (searchUid st))) db = fp # rest \<and> fst fp \<noteq> u \<and>
     find (\<lambda>c. contact_user_id c = fst fp) (contacts_state st) = None \<and>
     (u, fst fp) \<in> set (map (\<lambda>e. (edge_user_id e, edge_contact_user_id e)) (contacts db))"
  then obtain e where "insert_contact (Some u) now new_id u (fst fp) (contacts db) = Inl e"
    using insert_contact_duplicate by blast
  moreover have "handleAddContact (Some u) now new_id st db =
     (case insert_contact (Some u) now new_id u (fst fp) (contacts db) of
        Inl e \<Rightarrow>
          ((notify \<lparr>title = ''Error'', description = ''Failed to add contact.'',
                    destructive = True\<rparr> st)\<lparr>loading := False\<rparr>, db)
      | Inr edges' \<Rightarrow>
          ((fetchContacts (Some u) (db\<lparr>contacts := edges'\<rparr>)
              (notify \<lparr>title = ''Contact added'',
                       description = snd fp @ '' has been added to your contacts.'',
                       destructive = False\<rparr>
                 (st\<lparr>searchUid := [], addDialogOpen := False\<rparr>)))\<lparr>loading := False\<rparr>,
           db\<lparr>contacts := edges'\<rparr>))"
    using assms h by (intro handleAddContact_insert) blast+
  ultimately show "handleAddContact (Some u) now new_id st db =
         ((notify \<lparr>title = ''Error'', description = ''Failed to add contact.'',
                   destructive = True\<rparr> st)\<lparr>loading := False\<rparr>, db)"
    by simp
next
  assume h: "length (trim (searchUid st)) = 8 \<and>
     lookup_profile_by_uid (Some (trim (searchUid st))) db = fp # rest \<and> fst fp \<noteq> u \<and>
     find (\<lambda>c. contact_user_id c = fst fp) (contacts_state st) = None \<and>
     (u, fst fp) \<notin> set (map (\<lambda>e. (edge_user_id e, edge_contact_user_id e)) (contacts db)) \<and>
     new_id \<notin> set (map edge_id (contacts db))"
  then have ins: "insert_contact (Some u) now new_id u (fst fp) (contacts db) =
      Inr (contacts db @ [\<lparr>edge_id = new_id, edge_user_id = u, edge_contact_user_id = fst fp,
                            edge_created_at = now\<rparr>])"
    by (intro insert_contact_fresh) blast+
  have "handleAddContact (Some u) now new_id st db =
     (case insert_contact (Some u) now new_id u (fst fp) (contacts db) of
        Inl e \<Rightarrow>
          ((notify \<lparr>title = ''Error'', description = ''Failed to add contact.'',
                    destructive = True\<rparr> st)\<lparr>loading := False\<rparr>, db)
      | Inr edges' \<Rightarrow>
          ((fetchContacts (Some u) (db\<lparr>contacts := edges'\<rparr>)
              (notify \<lparr>title = ''Contact added'',
                       description = snd fp @ '' has been added to your contacts.'',
                       destructive = False\<rparr>
                 (st\<lparr>searchUid := [], addDialogOpen := False\<rparr>)))\<lparr>loading := False\<rparr>,
           db\<lparr>contacts := edges'\<rparr>))"
    using assms h by (intro handleAddContact_insert) blast+
  then show "snd (handleAddContact (Some u) now new_id st db) =
         db\<lparr>contacts := contacts db @ [\<lparr>edge_id = new_id, edge_user_id = u,
                                           edge_contact_user_id = fst fp,
                                           edge_created_at = now\<rparr>]\<rparr>"
    and "notices (fst (handleAddContact (Some u) now new_id st db)) =
         notices st @ [\<lparr>title = ''Contact added'',
                        description = snd fp @ '' has been added to your contacts.'',
                        destructive = False\<rparr>]"
    by (simp_all add: ins notices_fetchContacts notify_def)
next
  assume ch: "contacts (snd (handleAddContact (Some u) now new_id st db)) \<noteq> contacts db"
  then have "snd (handleAddContact (Some u) now new_id st db) \<noteq> db" by auto
  with handleAddContact_store [of "Some u" now new_id st db]
  obtain fp rest where
    "length (trim (searchUid st)) = 8"
    "lookup_profile_by_uid (Some (trim (searchUid st))) db = fp # rest" "fst fp \<noteq> u"
    "find (\<lambda>c. contact_user_id c = fst fp) (contacts_state st) = None"
    "snd (handleAddContact (Some u) now new_id st db) =
        db\<lparr>contacts := contacts db @ [\<lparr>edge_id = new_id, edge_user_id = u,
                                          edge_contact_user_id = fst fp,
                                          edge_created_at = now\<rparr>]\<rparr>"
    by auto
  then show "length (trim (searchUid st)) = 8"
    and "\<exists>fp rest. lookup_profile_by_uid (Some (trim (searchUid st))) db = fp # rest \<and>
          fst fp \<noteq> u \<and>
          find (\<lambda>c. contact_user_id c = fst fp) (contacts_state st) = None \<and>
          snd (handleAddContact (Some u) now new_id st db) =
            db\<lparr>contacts := contacts db @ [\<lparr>edge_id = new_id, edge_user_id = u,
                                              edge_contact_user_id = fst fp,
                                              edge_created_at = now\<rparr>]\<rparr>"
    by blast+
next
  assume own: "distinct (map uid (profiles db)) \<and> p \<in> set (profiles db) \<and> user_id p = u \<and>
     uid p = trim (searchUid st) \<and> length (uid p) = 8"
  then have d: "distinct (map uid (profiles db))" and m: "p \<in> set (profiles db)"
    and i: "user_id p = u" and h: "uid p = trim (searchUid st)" and l: "length (uid p) = 8"
    by blast+
  have "lookup_profile_by_uid (Some (uid p)) db = [(user_id p, name p)]"
    using d m l by (rule lookup_own_handle)
  then have "lookup_profile_by_uid (Some (trim (searchUid st))) db = (u, name p) # []"
    by (simp only: h i)
  moreover have "length (trim (searchUid st)) = 8" using l by (simp only: h)
  ultimately show "handleAddContact (Some u) now new_id st db =
         ((notify \<lparr>title = ''Invalid UID'', description = ''You can't add yourself as a contact.'',
                   destructive = True\<rparr> st)\<lparr>loading := False\<rparr>, db)"
    using assms by (intro handleAddContact_self [where fp = "(u, name p)" and rest = "[]"]) simp_all
qed simp

theorem handleAddContact_four_checks_witness:
  "handleAddContact (Some 1) 300 21 (add_dialog\<lparr>searchUid := ''zz99''\<rparr>) people =
     (notify \<lparr>title = ''Invalid UID'', description = ''UID must be exactly 8 characters.'',
              destructive = True\<rparr> (add_dialog\<lparr>searchUid := ''zz99''\<rparr>), people) \<and>
   handleAddContact (Some 1) 300 21 (add_dialog\<lparr>searchUid := ''nobody00''\<rparr>) people =
     ((notify \<lparr>title = ''User not found'', description = ''No user exists with that UID.'',
               destructive = True\<rparr> (add_dialog\<lparr>searchUid := ''nobody00''\<rparr>))\<lparr>loading := False\<rparr>,
      people) \<and>
   handleAddContact (Some 1) 300 21 (add_dialog\<lparr>searchUid := '' ab12cd34 ''\<rparr>) people =
     ((notify \<lparr>title = ''Invalid UID'', description = ''You can't add yourself as a contact.'',
               destructive = True\<rparr> (add_dialog\<lparr>searchUid := '' ab12cd34 ''\<rparr>))\<lparr>loading := False\<rparr>,
      people) \<and>
   handleAddContact (Some 1) 300 21
       (add_dialog\<lparr>searchUid := ''zz99yy88'', contacts_state := [bob_contact]\<rparr>) people =
     ((notify \<lparr>title = ''Already added'', description = ''This user is already in your contacts.'',
               destructive = True\<rparr>
         (add_dialog\<lparr>searchUid := ''zz99yy88'', contacts_state := [bob_contact]\<rparr>))\<lparr>loading := False\<rparr>,
      people) \<and>
   snd (handleAddContact (Some 1) 300 21 (add_dialog\<lparr>searchUid := ''zz99yy88''\<rparr>) people) =
     people\<lparr>contacts := [\<lparr>edge_id = 21, edge_user_id = 1, edge_contact_user_id = 2,
                             edge_created_at = 300\<rparr>]\<rparr> \<and>
   notices (fst (handleAddContact (Some 1) 300 21 (add_dialog\<lparr>searchUid := ''zz99yy88''\<rparr>) people)) =
     [\<lparr>title = ''Contact added'', description = ''Bob has been added to your contacts.'',
       destructive = False\<rparr>] \<and>
   handleAddContact (Some 1) 300 21 (add_dialog\<lparr>searchUid := ''0f0f0f0f''\<rparr>)
       (people\<lparr>contacts := [\<lparr>edge_id = 24, edge_user_id = 1, edge_contact_user_id = 3,
                                 edge_created_at = 250\<rparr>]\<rparr>) =
     ((notify \<lparr>title = ''Error'', description = ''Failed to add contact.'',
               destructive = True\<rparr> (add_dialog\<lparr>searchUid := ''0f0f0f0f''\<rparr>))\<lparr>loading := False\<rparr>,
      people\<lparr>contacts := [\<lparr>edge_id = 24, edge_user_id = 1, edge_contact_user_id = 3,
                              edge_created_at = 250\<rparr>]\<rparr>)"
proof -
  let ?T1 = "\<lparr>title = ''Invalid UID'', description = ''UID must be exactly 8 characters.'',
              destructive = True\<rparr>"
  let ?short = "add_dialog\<lparr>searchUid := ''zz99''\<rparr>"
  let ?nobody = "add_dialog\<lparr>searchUid := ''nobody00''\<rparr>"
  let ?own = "add_dialog\<lparr>searchUid := '' ab12cd34 ''\<rparr>"
  let ?listed = "add_dialog\<lparr>searchUid := ''zz99yy88'', contacts_state := [bob_contact]\<rparr>"
  let ?st = "add_dialog\<lparr>searchUid := ''zz99yy88''\<rparr>"
  let ?cy = "add_dialog\<lparr>searchUid := ''0f0f0f0f''\<rparr>"
  let ?held = "people\<lparr>contacts := [\<lparr>edge_id = 24, edge_user_id = 1, edge_contact_user_id = 3,
                                       edge_created_at = 250\<rparr>]\<rparr>"
  have t: "trim (searchUid ?short) = ''zz99''" "trim (searchUid ?nobody) = ''nobody00''"
    "trim (searchUid ?own) = ''ab12cd34''" "trim (searchUid ?listed) = ''zz99yy88''"
    "trim (searchUid ?st) = ''zz99yy88''" "trim (searchUid ?cy) = ''0f0f0f0f''"
    by (simp_all add: trim_def is_ws_def)
  have tp: "trim ''zz99'' = ''zz99''" "trim ''nobody00'' = ''nobody00''"
    "trim ''zz99yy88'' = ''zz99yy88''"
    by (simp_all add: trim_def is_ws_def)
  have ne: "trim (searchUid ?short) \<noteq> []" "trim (searchUid ?nobody) \<noteq> []"
    "trim (searchUid ?own) \<noteq> []" "trim (searchUid ?listed) \<noteq> []"
    "trim (searchUid ?st) \<noteq> []" "trim (searchUid ?cy) \<noteq> []"
    by (simp_all only: t) simp_all
  have l: "lookup_profile_by_uid (Some ''nobody00'') people = []"
    "lookup_profile_by_uid (Some ''zz99yy88'') people = (2, ''Bob'') # []"
    "lookup_profile_by_uid (Some ''0f0f0f0f'') ?held = (3, ''Cy'') # []"
    by (simp_all add: lookup_profile_by_uid_def people_def ann_def bob_def cy_def)
  have w1: "handleAddContact (Some 1) 300 21 ?short people = (notify ?T1 ?short, people)"
    by (rule handleAddContact_four_checks [OF ne(1), THEN conjunct1, THEN mp])
       (simp add: tp)
  have w2: "handleAddContact (Some 1) 300 21 ?nobody people =
     ((notify \<lparr>title = ''User not found'', description = ''No user exists with that UID.'',
               destructive = True\<rparr> ?nobody)\<lparr>loading := False\<rparr>, people)"
    by (rule handleAddContact_four_checks
              [OF ne(2), THEN conjunct2, THEN conjunct1, THEN mp])
       (simp add: tp l)
  have own: "distinct (map uid (profiles people)) \<and> ann \<in> set (profiles people) \<and>
     user_id ann = 1 \<and> uid ann = trim (searchUid ?own) \<and> length (uid ann) = 8"
    unfolding t by (simp add: people_def ann_def bob_def cy_def)
  have w3: "handleAddContact (Some 1) 300 21 ?own people =
     ((notify \<lparr>title = ''Invalid UID'', description = ''You can't add yourself as a contact.'',
               destructive = True\<rparr> ?own)\<lparr>loading := False\<rparr>, people)"
    by (rule handleAddContact_four_checks
              [OF ne(3), THEN conjunct2, THEN conjunct2, THEN conjunct2, THEN conjunct2,
               THEN conjunct2, THEN conjunct2, THEN conjunct2, THEN conjunct2, THEN mp])
       (rule own)
  have w4: "handleAddContact (Some 1) 300 21 ?listed people =
     ((notify \<lparr>title = ''Already added'', description = ''This user is already in your contacts.'',
               destructive = True\<rparr> ?listed)\<lparr>loading := False\<rparr>, people)"
    by (rule handleAddContact_four_checks
              [where fp = "(2, ''Bob'')" and rest = "[]", OF ne(4), THEN conjunct2, THEN conjunct2,
               THEN conjunct2, THEN conjunct1, THEN mp])
       (simp add: tp l bob_contact_def)
  have pass: "length (trim (searchUid ?st)) = 8 \<and>
     lookup_profile_by_uid (Some (trim (searchUid ?st))) people = (2, ''Bob'') # [] \<and>
     fst (2::nat, ''Bob'') \<noteq> 1 \<and>
     find (\<lambda>c. contact_user_id c = fst (2::nat, ''Bob'')) (contacts_state ?st) = None \<and>
     (1, fst (2::nat, ''Bob'')) \<notin>
        set (map (\<lambda>e. (edge_user_id e, edge_contact_user_id e)) (contacts people)) \<and>
     21 \<notin> set (map edge_id (contacts people))"
    unfolding t l by (simp add: add_dialog_def people_def)
  note added = handleAddContact_four_checks
              [where fp = "(2, ''Bob'')" and rest = "[]", OF ne(5), THEN conjunct2, THEN conjunct2,
               THEN conjunct2, THEN conjunct2, THEN conjunct2, THEN conjunct1, THEN mp, OF pass]
  have w5: "snd (handleAddContact (Some 1) 300 21 ?st people) =
     people\<lparr>contacts := [\<lparr>edge_id = 21, edge_user_id = 1, edge_contact_user_id = 2,
                             edge_created_at = 300\<rparr>]\<rparr>"
    using added [THEN conjunct1] by (simp add: people_def)
  have w6: "notices (fst (handleAddContact (Some 1) 300 21 ?st people)) =
     [\<lparr>title = ''Contact added'', description = ''Bob has been added to your contacts.'',
       destructive = False\<rparr>]"
    using added [THEN conjunct2] by (simp add: add_dialog_def)
  have "contacts (snd (handleAddContact (Some 1) 300 21 ?st people)) \<noteq> contacts people"
    unfolding w5 by (simp add: people_def)
  then have changed: "length (trim (searchUid ?st)) = 8"
    using handleAddContact_four_checks
              [OF ne(5), THEN conjunct2, THEN conjunct2, THEN conjunct2, THEN conjunct2,
               THEN conjunct2, THEN conjunct2, THEN conjunct1, THEN mp, THEN conjunct1,
               of 1 300 21 people]
    by blast
  have stale: "length (trim (searchUid ?cy)) = 8 \<and>
     lookup_profile_by_uid (Some (trim (searchUid ?cy))) ?held = (3, ''Cy'') # [] \<and>
     fst (3::nat, ''Cy'') \<noteq> 1 \<and>
     find (\<lambda>c. contact_user_id c = fst (3::nat, ''Cy'')) (contacts_state ?cy) = None \<and>
     (1, fst (3::nat, ''Cy'')) \<in>
        set (map (\<lambda>e. (edge_user_id e, edge_contact_user_id e)) (contacts ?held))"
    unfolding t l by (simp add: add_dialog_def)
  have w7: "handleAddContact (Some 1) 300 21 ?cy ?held =
     ((notify \<lparr>title = ''Error'', description = ''Failed to add contact.'',
               destructive = True\<rparr> ?cy)\<lparr>loading := False\<rparr>, ?held)"
    by (rule handleAddContact_four_checks
              [where fp = "(3, ''Cy'')" and rest = "[]", OF ne(6), THEN conjunct2, THEN conjunct2,
               THEN conjunct2, THEN conjunct2, THEN conjunct1, THEN mp, OF stale])
  show ?thesis using w1 w2 w3 w4 w5 w6 w7 by (intro conjI)
qed

text \<open>
  The claim as written fails in two places. After the settings page has stored the
  one-character handle \<open>i\<close> for Ann, Ann's own handle ends in the length notice, not in
  the self-reference notice. And when Ann already holds Cy in the store while the
  dialog's list is empty, entering Cy's handle passes all four checks, the insert runs,
  and the notice is that of a failed insert, not \<open>Already added\<close>.
\<close>

theorem own_short_handle_and_stale_list_counterexample:
  "snd (handleRegenerateUid ''0.i'' (Some 1) 500 (Some ann) people) =
     people\<lparr>profiles := [ann\<lparr>uid := ''i'', profile_updated_at := 500\<rparr>, bob, cy]\<rparr> \<and>
   handleAddContact (Some 1) 600 21 (add_dialog\<lparr>searchUid := ''i''\<rparr>)
       (people\<lparr>profiles := [ann\<lparr>uid := ''i'', profile_updated_at := 500\<rparr>, bob, cy]\<rparr>) =
     (notify \<lparr>title = ''Invalid UID'', description = ''UID must be exactly 8 characters.'',
              destructive = True\<rparr> (add_dialog\<lparr>searchUid := ''i''\<rparr>),
      people\<lparr>profiles := [ann\<lparr>uid := ''i'', profile_updated_at := 500\<rparr>, bob, cy]\<rparr>) \<and>
   handleAddContact (Some 1) 600 21 (add_dialog\<lparr>searchUid := ''0f0f0f0f''\<rparr>)
       (people\<lparr>contacts := [\<lparr>edge_id = 24, edge_user_id = 1, edge_contact_user_id = 3,
                                 edge_created_at = 250\<rparr>]\<rparr>) =
     ((notify \<lparr>title = ''Error'', description = ''Failed to add contact.'',
               destructive = True\<rparr> (add_dialog\<lparr>searchUid := ''0f0f0f0f''\<rparr>))\<lparr>loading := False\<rparr>,
      people\<lparr>contacts := [\<lparr>edge_id = 24, edge_user_id = 1, edge_contact_user_id = 3,
                              edge_created_at = 250\<rparr>]\<rparr>)"
proof (intro conjI)
  show "snd (handleRegenerateUid ''0.i'' (Some 1) 500 (Some ann) people) =
     people\<lparr>profiles := [ann\<lparr>uid := ''i'', profile_updated_at := 500\<rparr>, bob, cy]\<rparr>"
    by (simp add: handleRegenerateUid_def substring_def update_profile_uid_def uid_conflict_def
          update_target_def people_def ann_def bob_def cy_def)
next
  have "trim (searchUid (add_dialog\<lparr>searchUid := ''i''\<rparr>)) = ''i''"
    by (simp add: trim_def is_ws_def)
  then show "handleAddContact (Some 1) 600 21 (add_dialog\<lparr>searchUid := ''i''\<rparr>)
       (people\<lparr>profiles := [ann\<lparr>uid := ''i'', profile_updated_at := 500\<rparr>, bob, cy]\<rparr>) =
     (notify \<lparr>title = ''Invalid UID'', description = ''UID must be exactly 8 characters.'',
              destructive = True\<rparr> (add_dialog\<lparr>searchUid := ''i''\<rparr>),
      people\<lparr>profiles := [ann\<lparr>uid := ''i'', profile_updated_at := 500\<rparr>, bob, cy]\<rparr>)"
    by (intro handleAddContact_malformed) simp_all
next
  show "handleAddContact (Some 1) 600 21 (add_dialog\<lparr>searchUid := ''0f0f0f0f''\<rparr>)
       (people\<lparr>contacts := [\<lparr>edge_id = 24, edge_user_id = 1, edge_contact_user_id = 3,
                                 edge_created_at = 250\<rparr>]\<rparr>) =
     ((notify \<lparr>title = ''Error'', description = ''Failed to add contact.'',
               destructive = True\<rparr> (add_dialog\<lparr>searchUid := ''0f0f0f0f''\<rparr>))\<lparr>loading := False\<rparr>,
      people\<lparr>contacts := [\<lparr>edge_id = 24, edge_user_id = 1, edge_contact_user_id = 3,
                              edge_created_at = 250\<rparr>]\<rparr>)"
    by (simp add: handleAddContact_def lookup_profile_by_uid_def insert_contact_def
          contacts_policy_def trim_def is_ws_def add_dialog_def people_def ann_def bob_def cy_def
          Let_def)
qed

section \<open>Adding the same peer twice\<close>

lemma fetchContacts_user_ids:
  "map contact_user_id (contacts_state (fetchContacts (Some u) db st)) =
   map edge_contact_user_id
     (filter (\<lambda>e. edge_user_id e = u) (filter (contacts_policy (Some u)) (contacts db)))"
  by (simp add: fetchContacts_def Let_def comp_def)

lemma fetchContacts_lists_edge:
  assumes "e \<in> set (contacts db)" and "edge_user_id e = u"
  shows "find (\<lambda>c. contact_user_id c = edge_contact_user_id e)
           (contacts_state (fetchContacts (Some u) db st)) \<noteq> None"
proof -
  let ?data = "filter (\<lambda>e. edge_user_id e = u) (filter (contacts_policy (Some u)) (contacts db))"
  have "e \<in> set ?data" using assms by (simp add: contacts_policy_def)
  then have "edge_contact_user_id e \<in> set (map edge_contact_user_id ?data)"
    by (simp del: map_eq_conv filter_filter)
  then have "edge_contact_user_id e \<in>
               set (map contact_user_id (contacts_state (fetchContacts (Some u) db st)))"
    by (simp only: fetchContacts_user_ids)
  then obtain c where "c \<in> set (contacts_state (fetchContacts (Some u) db st))"
    "contact_user_id c = edge_contact_user_id e" by auto
  then show ?thesis by (auto simp: find_None_iff)
qed

text \<open>
  A successful add reloads the list, so the peer is in the list the component holds
  afterwards.
\<close>

lemma added_peer_is_listed:
  assumes "trim (searchUid st) \<noteq> []" and "length (trim (searchUid st)) = 8"
    and "lookup_profile_by_uid (Some (trim (searchUid st))) db = fp # rest" and "fst fp \<noteq> u"
    and "find (\<lambda>c. contact_user_id c = fst fp) (contacts_state st) = None"
    and "insert_contact (Some u) now new_id u (fst fp) (contacts db) = Inr edges'"
  shows "find (\<lambda>c. contact_user_id c = fst fp)
           (contacts_state (fst (handleAddContact (Some u) now new_id st db))) \<noteq> None"
proof -
  let ?e = "\<lparr>edge_id = new_id, edge_user_id = u, edge_contact_user_id = fst fp,
             edge_created_at = now\<rparr>"
  have "edges' = contacts db @ [?e]" using assms(6) by (rule insert_contact_result)
  then have "?e \<in> set (contacts (db\<lparr>contacts := edges'\<rparr>))" by simp
  then have "\<And>st'. find (\<lambda>c. contact_user_id c = edge_contact_user_id ?e)
           (contacts_state (fetchContacts (Some u) (db\<lparr>contacts := edges'\<rparr>) st')) \<noteq> None"
    by (rule fetchContacts_lists_edge) simp
  then show ?thesis
    using handleAddContact_insert [OF assms(1-5), of now new_id] assms(6) by simp
qed

text \<open>
  C8, amended. Let the edge from the owner to the peer exist in the store, and let the
  owner enter the peer's handle again. No second edge is created: the store is left as
  it is. When the contact list loaded in the session contains the peer, the handler
  stops with the \<open>Already added\<close> notice before any insert. When the loaded list does not
  contain the peer, the insert is attempted, the uniqueness constraint rejects it, and
  the notice is \<open>Failed to add contact\<close>.
\<close>

theorem second_add_creates_no_second_edge:
  assumes "trim (searchUid st) \<noteq> []" and "length (trim (searchUid st)) = 8"
    and "lookup_profile_by_uid (Some (trim (searchUid st))) db = fp # rest" and "fst fp \<noteq> u"
    and "(u, fst fp) \<in> set (map (\<lambda>e. (edge_user_id e, edge_contact_user_id e)) (contacts db))"
  shows "snd (handleAddContact (Some u) now new_id st db) = db \<and>
    (find (\<lambda>c. contact_user_id c = fst fp) (contacts_state st) \<noteq> None \<longrightarrow>
       fst (handleAddContact (Some u) now new_id st db) =
         (notify \<lparr>title = ''Already added'',
                  description = ''This user is already in your contacts.'',
                  destructive = True\<rparr> st)\<lparr>loading := False\<rparr>) \<and>
    (find (\<lambda>c. contact_user_id c = fst fp) (contacts_state st) = None \<longrightarrow>
       fst (handleAddContact (Some u) now new_id st db) =
         (notify \<lparr>title = ''Error'', description = ''Failed to add contact.'',
                  destructive = True\<rparr> st)\<lparr>loading := False\<rparr>)"
proof (cases "find (\<lambda>c. contact_user_id c = fst fp) (contacts_state st) = None")
  case False
  then show ?thesis using handleAddContact_listed [OF assms(1-4), of now new_id] by auto
next
  case True
  obtain e where "insert_contact (Some u) now new_id u (fst fp) (contacts db) = Inl e"
    using insert_contact_duplicate [OF assms(5)] by blast
  then show ?thesis
    using True handleAddContact_insert [OF assms(1-4) True, of now new_id] by simp
qed

theorem second_add_creates_no_second_edge_witness:
  "handleAddContact (Some 1) 400 23
     (add_dialog\<lparr>searchUid := ''zz99yy88'', contacts_state := [bob_contact]\<rparr>)
     (people\<lparr>contacts := [ann_holds_bob]\<rparr>) =
     ((notify \<lparr>title = ''Already added'', description = ''This user is already in your contacts.'',
               destructive = True\<rparr>
         (add_dialog\<lparr>searchUid := ''zz99yy88'', contacts_state := [bob_contact]\<rparr>))\<lparr>loading := False\<rparr>,
      people\<lparr>contacts := [ann_holds_bob]\<rparr>)"
proof -
  let ?st = "add_dialog\<lparr>searchUid := ''zz99yy88'', contacts_state := [bob_contact]\<rparr>"
  let ?db = "people\<lparr>contacts := [ann_holds_bob]\<rparr>"
  have t: "trim (searchUid ?st) = ''zz99yy88''" by (simp add: trim_def is_ws_def)
  have 1: "trim (searchUid ?st) \<noteq> []" "length (trim (searchUid ?st)) = 8"
    by (simp_all only: t) simp_all
  have 2: "lookup_profile_by_uid (Some (trim (searchUid ?st))) ?db = (2, ''Bob'') # []"
    unfolding t by (simp add: lookup_profile_by_uid_def people_def ann_def bob_def cy_def)
  have 3: "fst (2::nat, ''Bob'') \<noteq> 1" by simp
  have 4: "(1, fst (2::nat, ''Bob'')) \<in>
             set (map (\<lambda>e. (edge_user_id e, edge_contact_user_id e)) (contacts ?db))"
    by (simp add: ann_holds_bob_def)
  have 5: "find (\<lambda>c. contact_user_id c = fst (2::nat, ''Bob'')) (contacts_state ?st) \<noteq> None"
    by (simp add: bob_contact_def)
  show ?thesis
    using second_add_creates_no_second_edge [OF 1 2 3 4, of 400 23] 5
    by (simp add: prod_eq_iff)
qed

text \<open>
  The claim as written fails when the session's list has not been loaded with the edge:
  Ann already holds Bob in the store, the dialog's list is empty, and entering Bob's
  handle ends in the notice of a failed insert, not in \<open>Already added\<close>.
\<close>

theorem second_add_generic_failure_counterexample:
  "ann_holds_bob \<in> set (contacts (people\<lparr>contacts := [ann_holds_bob]\<rparr>)) \<and>
   edge_user_id ann_holds_bob = 1 \<and> edge_contact_user_id ann_holds_bob = user_id bob \<and>
   handleAddContact (Some 1) 400 23 (add_dialog\<lparr>searchUid := ''zz99yy88''\<rparr>)
     (people\<lparr>contacts := [ann_holds_bob]\<rparr>) =
     ((notify \<lparr>title = ''Error'', description = ''Failed to add contact.'',
               destructive = True\<rparr> (add_dialog\<lparr>searchUid := ''zz99yy88''\<rparr>))\<lparr>loading := False\<rparr>,
      people\<lparr>contacts := [ann_holds_bob]\<rparr>)"
  by (simp add: handleAddContact_def lookup_profile_by_uid_def insert_contact_def
        contacts_policy_def trim_def is_ws_def add_dialog_def people_def ann_def bob_def cy_def
        ann_holds_bob_def Let_def)

end
